theory Spec2Isabelle
  imports Complex_Main "HOL-Library.Multiset"
begin

section \<open>Market-data aggregation and portfolio snapshots\<close>

text \<open>
  A shallow embedding of the stock-data service (\<^verbatim>\<open>getQuote\<close>, \<^verbatim>\<open>getQuotes\<close>,
  \<^verbatim>\<open>getHistoricalData\<close>, \<^verbatim>\<open>getStoredHistoricalData\<close>, \<^verbatim>\<open>fetchAndStoreHistoricalData\<close>)
  and of the portfolio snapshot service (\<^verbatim>\<open>recordDailySnapshot\<close>,
  \<^verbatim>\<open>generateHistoricalSnapshots\<close>).

  Conventions of the model:
  \<^item> a JavaScript \<^verbatim>\<open>Date\<close> is its number of milliseconds since the epoch, an \<open>int\<close>;
    \<^verbatim>\<open>Date.now()\<close> and \<^verbatim>\<open>new Date()\<close> are one parameter \<open>now\<close> of each call;
  \<^item> a JavaScript number is a \<open>real\<close> (rounding of floating point is not modelled); a
    value that may be \<^verbatim>\<open>null\<close>, \<^verbatim>\<open>undefined\<close> or \<^verbatim>\<open>NaN\<close> is an \<open>option\<close>;
  \<^item> the database is a record of tables; every store operation consults a fault
    predicate and raises when it says so; a raised exception is \<open>Inl\<close>;
  \<^item> the outbound HTTP calls are functions of an environment record, and every
    invocation is appended to the trace \<open>calls\<close>; delays are not modelled.
\<close>

subsection \<open>Data model\<close>

type_synonym timestamp = int

definition ONE_DAY_MS :: int where
  "ONE_DAY_MS = 24 * 60 * 60 * 1000"

datatype source = FMP | Finnhub | TwelveData | Yahoo | AlphaVantage

datatype provider_call = QuoteCall source string | HistoryCall source string

text \<open>What an outbound request gives: an exception, no usable payload, or a payload.\<close>

datatype 'a outcome = Throws | NoData | Data 'a

text \<open>The object a quote adapter returns (the fields \<^verbatim>\<open>getQuote\<close> reads).\<close>

record adapter_result =
  r_name :: string
  r_price :: "real option"
  r_previousClose :: "real option"
  r_open :: "real option"
  r_high :: "real option"
  r_low :: "real option"
  r_volume :: "int option"
  r_marketCap :: "int option"
  r_changeAmount :: "real option"
  r_changePercent :: "real option"

text \<open>
  A quote: the \<^verbatim>\<open>quoteData\<close> object of \<^verbatim>\<open>getQuote\<close> and a row of the table
  \<^verbatim>\<open>stockQuote\<close>. Only a stored row carries \<open>q_updatedAt\<close>.
\<close>

record quote =
  q_symbol :: string
  q_name :: string
  q_price :: real
  q_previousClose :: "real option"
  q_open :: "real option"
  q_high :: "real option"
  q_low :: "real option"
  q_volume :: "int option"
  q_marketCap :: "int option"
  q_changeAmount :: "real option"
  q_changePercent :: "real option"
  q_updatedAt :: "timestamp option"

record history_row =
  h_symbol :: string
  h_date :: timestamp
  h_open :: real
  h_high :: real
  h_low :: real
  h_close :: real
  h_adjClose :: real
  h_volume :: int

text \<open>
  A point as returned to the caller. The stored path returns objects without a
  symbol; the refetch path spreads the whole row, symbol included.
\<close>

record history_point =
  p_symbol :: "string option"
  p_date :: timestamp
  p_open :: real
  p_high :: real
  p_low :: real
  p_close :: real
  p_adjClose :: real
  p_volume :: int

record metadata =
  m_symbol :: string
  m_name :: "string option"
  m_historyStartDate :: "timestamp option"
  m_historyEndDate :: "timestamp option"
  m_lastFetchedAt :: "timestamp option"

record holding =
  symbol :: string
  shares :: real
  avgCostBasis :: real

record portfolio_row =
  pf_userId :: string
  holdings :: "holding list"

record snapshot =
  s_userId :: string
  s_date :: timestamp
  s_totalValue :: real
  s_totalCost :: real
  s_dayGain :: real

text \<open>Payload rows of the three history providers, dates already parsed.\<close>

record td_row =
  td_datetime :: timestamp
  td_open :: "real option"
  td_high :: "real option"
  td_low :: "real option"
  td_close :: "real option"
  td_volume :: "int option"

record yahoo_row =
  y_date :: timestamp
  y_open :: "real option"
  y_high :: "real option"
  y_low :: "real option"
  y_close :: "real option"
  y_adjClose :: "real option"
  y_volume :: "int option"

record fmp_row =
  f_date :: timestamp
  f_open :: real
  f_high :: real
  f_low :: real
  f_close :: real
  f_adjClose :: "real option"
  f_volume :: "int option"

subsection \<open>The store and the environment\<close>

datatype db_op =
    QuoteFindUnique string
  | QuoteUpsert string
  | MetadataFindUnique string
  | MetadataUpsert string
  | HistoryFindMany string
  | HistoryDeleteMany string
  | HistoryCreateMany string
  | PortfolioFindMany string
  | SnapshotUpsert string timestamp

datatype error = DbError db_op

text \<open>
  Modelled from the spec: the database schema is not among the sources. Following
  the data model of the spec, a quote and a metadata row are unique per symbol, a
  history row is unique per (symbol, date) and a snapshot is unique per
  (userId, date).
\<close>

record world =
  stockQuote :: "string \<rightharpoonup> quote"
  stockMetadata :: "string \<rightharpoonup> metadata"
  stockHistory :: "history_row list"
  portfolio :: "portfolio_row list"
  portfolioSnapshot :: "snapshot list"
  calls :: "provider_call list"

text \<open>
  The environment of a call. \<open>quoteAdapter s\<close> is the adapter of source \<open>s\<close>
  (\<^verbatim>\<open>fetchFromFMP\<close>, \<^verbatim>\<open>fetchFromFinnhub\<close>, ...) taken as a whole: the request and
  the mapping of its payload. The three history fields are the payloads of the
  history requests. \<open>failing\<close> says which store operations raise, and \<open>tzOffset\<close>
  is the offset of local time from UTC in milliseconds.
\<close>

record env =
  quoteAdapter :: "source \<Rightarrow> string \<Rightarrow> adapter_result outcome"
  twelveDataSeries :: "string \<Rightarrow> td_row list outcome"
  yahooHistorical :: "string \<Rightarrow> yahoo_row list outcome"
  fmpHistorical :: "string \<Rightarrow> fmp_row list outcome"
  failing :: "db_op \<Rightarrow> bool"
  tzOffset :: int

subsection \<open>Strings\<close>

text \<open>\<^verbatim>\<open>String.prototype.toUpperCase\<close> on ASCII text.\<close>

definition toUpperChar :: "char \<Rightarrow> char" where
  "toUpperChar c =
     (case map_of (zip ''abcdefghijklmnopqrstuvwxyz'' ''ABCDEFGHIJKLMNOPQRSTUVWXYZ'') c of
        None \<Rightarrow> c
      | Some u \<Rightarrow> u)"

definition toUpperCase :: "string \<Rightarrow> string" where
  "toUpperCase s = map toUpperChar s"

subsection \<open>Quote aggregator\<close>

definition stockQuote_findUnique :: "env \<Rightarrow> string \<Rightarrow> world \<Rightarrow> error + quote option" where
  "stockQuote_findUnique E symb w =
     (if failing E (QuoteFindUnique symb) then Inl (DbError (QuoteFindUnique symb))
      else Inr (stockQuote w symb))"

text \<open>
  The upsert of \<^verbatim>\<open>getQuote\<close> carries \<^verbatim>\<open>.catch(e => console.log(...))\<close>: a failure
  leaves the table as it was and is not raised. The store is taken to stamp
  \<open>q_updatedAt\<close> with the time of the write.
\<close>

definition stockQuote_upsert_caught :: "env \<Rightarrow> timestamp \<Rightarrow> string \<Rightarrow> quote \<Rightarrow> world \<Rightarrow> world" where
  "stockQuote_upsert_caught E now symb qd w =
     (if failing E (QuoteUpsert symb) then w
      else w\<lparr>stockQuote := (stockQuote w)(symb \<mapsto> qd\<lparr>q_updatedAt := Some now\<rparr>)\<rparr>)"

text \<open>\<^verbatim>\<open>result && result.price > 0\<close>\<close>

definition validPrice :: "adapter_result \<Rightarrow> bool" where
  "validPrice r = (case r_price r of None \<Rightarrow> False | Some p \<Rightarrow> 0 < p)"

text \<open>
  \<^verbatim>\<open>v ? BigInt(v) : null\<close>, for a volume or market cap that is an integer when it
  is present.
\<close>

definition bigIntOrNull :: "int option \<Rightarrow> int option" where
  "bigIntOrNull v = (case v of None \<Rightarrow> None | Some n \<Rightarrow> if n = 0 then None else Some n)"

text \<open>
  The object \<^verbatim>\<open>quoteData\<close>. It is built only from a result whose price is
  positive, so the price is present.
\<close>

definition quoteData :: "string \<Rightarrow> adapter_result \<Rightarrow> quote" where
  "quoteData upperSymbol r =
     \<lparr> q_symbol = upperSymbol,
       q_name = r_name r,
       q_price = (case r_price r of None \<Rightarrow> 0 | Some p \<Rightarrow> p),
       q_previousClose = r_previousClose r,
       q_open = r_open r,
       q_high = r_high r,
       q_low = r_low r,
       q_volume = bigIntOrNull (r_volume r),
       q_marketCap = bigIntOrNull (r_marketCap r),
       q_changeAmount = r_changeAmount r,
       q_changePercent = r_changePercent r,
       q_updatedAt = None \<rparr>"

definition sources :: "source list" where
  "sources = [FMP, Finnhub, TwelveData, Yahoo, AlphaVantage]"

text \<open>
  The loop \<^verbatim>\<open>for (const source of sources)\<close>: every iteration invokes the adapter
  inside \<^verbatim>\<open>try\<close>; an exception or an unusable result moves on to the next source.
\<close>

fun trySources :: "env \<Rightarrow> timestamp \<Rightarrow> string \<Rightarrow> source list \<Rightarrow> world \<Rightarrow> quote option \<times> world" where
  "trySources E now upperSymbol [] w = (None, w)"
| "trySources E now upperSymbol (s # ss) w =
     (let w1 = w\<lparr>calls := calls w @ [QuoteCall s upperSymbol]\<rparr>
      in case quoteAdapter E s upperSymbol of
           Data r \<Rightarrow>
             (if validPrice r
              then (let qd = quoteData upperSymbol r
                    in (Some qd, stockQuote_upsert_caught E now upperSymbol qd w1))
              else trySources E now upperSymbol ss w1)
         | Throws \<Rightarrow> trySources E now upperSymbol ss w1
         | NoData \<Rightarrow> trySources E now upperSymbol ss w1)"

text \<open>\<^verbatim>\<open>age < 30000\<close> for a cached row.\<close>

definition freshQuote :: "timestamp \<Rightarrow> quote \<Rightarrow> bool" where
  "freshQuote now c = (case q_updatedAt c of None \<Rightarrow> False | Some u \<Rightarrow> now - u < 30000)"

definition getQuote :: "env \<Rightarrow> timestamp \<Rightarrow> string \<Rightarrow> world \<Rightarrow> (error + quote option) \<times> world" where
  "getQuote E now symb w =
     (let upperSymbol = toUpperCase symb
      in case stockQuote_findUnique E upperSymbol w of
           Inl e \<Rightarrow> (Inl e, w)
         | Inr cached \<Rightarrow>
             (if (case cached of None \<Rightarrow> False | Some c \<Rightarrow> freshQuote now c)
              then (Inr cached, w)
              else (case trySources E now upperSymbol sources w of
                      (Some qd, w') \<Rightarrow> (Inr (Some qd), w')
                    | (None, w') \<Rightarrow> (Inr cached, w'))))"

text \<open>
  \<^verbatim>\<open>getQuotes\<close>: one \<^verbatim>\<open>getQuote\<close> per symbol, in order; a quote is stored under the
  uppercased symbol, a \<^verbatim>\<open>null\<close> is left out. An exception of \<^verbatim>\<open>getQuote\<close> is not
  caught here.
\<close>

fun getQuotes_loop ::
  "env \<Rightarrow> timestamp \<Rightarrow> string list \<Rightarrow> (string \<rightharpoonup> quote) \<Rightarrow> world
     \<Rightarrow> (error + (string \<rightharpoonup> quote)) \<times> world" where
  "getQuotes_loop E now [] results w = (Inr results, w)"
| "getQuotes_loop E now (s # ss) results w =
     (case getQuote E now s w of
        (Inl e, w') \<Rightarrow> (Inl e, w')
      | (Inr None, w') \<Rightarrow> getQuotes_loop E now ss results w'
      | (Inr (Some q), w') \<Rightarrow> getQuotes_loop E now ss (results(toUpperCase s \<mapsto> q)) w')"

definition getQuotes ::
  "env \<Rightarrow> timestamp \<Rightarrow> string list \<Rightarrow> world \<Rightarrow> (error + (string \<rightharpoonup> quote)) \<times> world" where
  "getQuotes E now symbols w = getQuotes_loop E now symbols Map.empty w"

subsection \<open>History aggregator\<close>

definition stockMetadata_findUnique :: "env \<Rightarrow> string \<Rightarrow> world \<Rightarrow> error + metadata option" where
  "stockMetadata_findUnique E symb w =
     (if failing E (MetadataFindUnique symb) then Inl (DbError (MetadataFindUnique symb))
      else Inr (stockMetadata w symb))"

text \<open>
  \<^verbatim>\<open>findMany({ where: { symbol, date: { gte: startDate } }, orderBy: { date: 'asc' } })\<close>
\<close>

definition stockHistory_findMany_gte ::
  "env \<Rightarrow> string \<Rightarrow> timestamp \<Rightarrow> world \<Rightarrow> error + history_row list" where
  "stockHistory_findMany_gte E symb startDate w =
     (if failing E (HistoryFindMany symb) then Inl (DbError (HistoryFindMany symb))
      else Inr (sort_key h_date
                  (filter (\<lambda>h. h_symbol h = symb \<and> startDate \<le> h_date h) (stockHistory w))))"

text \<open>
  \<^verbatim>\<open>findMany({ where: { symbol }, orderBy: { date: 'asc' }, take: days })\<close>
\<close>

definition stockHistory_findMany_take ::
  "env \<Rightarrow> string \<Rightarrow> nat \<Rightarrow> world \<Rightarrow> error + history_row list" where
  "stockHistory_findMany_take E symb n w =
     (if failing E (HistoryFindMany symb) then Inl (DbError (HistoryFindMany symb))
      else Inr (take n (sort_key h_date
                  (filter (\<lambda>h. h_symbol h = symb) (stockHistory w)))))"

text \<open>
  \<^verbatim>\<open>Number(h.volume)\<close> on a \<^verbatim>\<open>BigInt\<close>: an integer of magnitude at most \<open>2 ^ 53\<close> is
  a double and is kept; a larger one is rounded to 53 significant bits, a tie going to
  the even neighbour. (A stored volume is a 64-bit integer, far below the largest
  double.)
\<close>

fun bitLength :: "nat \<Rightarrow> nat" where
  "bitLength n = (if n = 0 then 0 else Suc (bitLength (n div 2)))"

declare bitLength.simps [simp del]

definition roundToDouble :: "nat \<Rightarrow> nat" where
  "roundToDouble a =
     (let k = bitLength a - 53; q = a div 2 ^ k; r = a mod 2 ^ k
      in if 2 ^ k < 2 * r \<or> (2 * r = 2 ^ k \<and> odd q) then (q + 1) * 2 ^ k else q * 2 ^ k)"

definition toNumber :: "int \<Rightarrow> int" where
  "toNumber v = (if \<bar>v\<bar> \<le> 2 ^ 53 then v else sgn v * int (roundToDouble (nat \<bar>v\<bar>)))"

text \<open>The \<^verbatim>\<open>history.map(h => ({ date: h.date, ..., volume: Number(h.volume) }))\<close>
  of \<^verbatim>\<open>getStoredHistoricalData\<close>.\<close>

definition storedPoint :: "history_row \<Rightarrow> history_point" where
  "storedPoint h =
     \<lparr> p_symbol = None, p_date = h_date h, p_open = h_open h, p_high = h_high h,
       p_low = h_low h, p_close = h_close h, p_adjClose = h_adjClose h,
       p_volume = toNumber (h_volume h) \<rparr>"

text \<open>\<^verbatim>\<open>{ ...h, volume: Number(h.volume) }\<close>\<close>

definition fetchedPoint :: "history_row \<Rightarrow> history_point" where
  "fetchedPoint h =
     \<lparr> p_symbol = Some (h_symbol h), p_date = h_date h, p_open = h_open h,
       p_high = h_high h, p_low = h_low h, p_close = h_close h,
       p_adjClose = h_adjClose h, p_volume = toNumber (h_volume h) \<rparr>"

definition getStoredHistoricalData ::
  "env \<Rightarrow> timestamp \<Rightarrow> string \<Rightarrow> int \<Rightarrow> world \<Rightarrow> error + history_point list" where
  "getStoredHistoricalData E now symb days w =
     (let startDate = now - days * ONE_DAY_MS
      in case stockHistory_findMany_gte E symb startDate w of
           Inl e \<Rightarrow> Inl e
         | Inr history \<Rightarrow> Inr (map storedPoint history))"

text \<open>\<^verbatim>\<open>x || d\<close> on a number that may be missing: zero is falsy as well.\<close>

definition orElse :: "real option \<Rightarrow> real \<Rightarrow> real" where
  "orElse x d = (case x of None \<Rightarrow> d | Some v \<Rightarrow> if v = 0 then d else v)"

text \<open>\<^verbatim>\<open>BigInt(row.volume || 0)\<close>\<close>

definition bigIntOrZero :: "int option \<Rightarrow> int" where
  "bigIntOrZero v = (case v of None \<Rightarrow> 0 | Some n \<Rightarrow> n)"

definition fromTwelveData :: "string \<Rightarrow> td_row \<Rightarrow> history_row" where
  "fromTwelveData symb row =
     \<lparr> h_symbol = symb, h_date = td_datetime row,
       h_open = orElse (td_open row) 0, h_high = orElse (td_high row) 0,
       h_low = orElse (td_low row) 0, h_close = orElse (td_close row) 0,
       h_adjClose = orElse (td_close row) 0,
       h_volume = bigIntOrZero (td_volume row) \<rparr>"

definition fromYahoo :: "string \<Rightarrow> yahoo_row \<Rightarrow> history_row" where
  "fromYahoo symb row =
     \<lparr> h_symbol = symb, h_date = y_date row,
       h_open = orElse (y_open row) 0, h_high = orElse (y_high row) 0,
       h_low = orElse (y_low row) 0, h_close = orElse (y_close row) 0,
       h_adjClose = orElse (y_adjClose row) (orElse (y_close row) 0),
       h_volume = bigIntOrZero (y_volume row) \<rparr>"

definition fromFMP :: "string \<Rightarrow> fmp_row \<Rightarrow> history_row" where
  "fromFMP symb row =
     \<lparr> h_symbol = symb, h_date = f_date row,
       h_open = f_open row, h_high = f_high row,
       h_low = f_low row, h_close = f_close row,
       h_adjClose = orElse (f_adjClose row) (f_close row),
       h_volume = bigIntOrZero (f_volume row) \<rparr>"

text \<open>
  The three strategies. Each is guarded by \<^verbatim>\<open>if (!historyData)\<close>, and an array, even
  an empty one, is truthy: only \<open>None\<close> lets the next strategy run. Twelve Data's
  values are reversed; Yahoo's result counts only when it is not empty; the FMP rows
  are taken in the order of the payload.
\<close>

definition tryTwelveData :: "env \<Rightarrow> string \<Rightarrow> world \<Rightarrow> history_row list option \<times> world" where
  "tryTwelveData E symb w =
     (case twelveDataSeries E symb of
        Data vs \<Rightarrow> Some (rev (map (fromTwelveData symb) vs))
      | Throws \<Rightarrow> None
      | NoData \<Rightarrow> None,
      w\<lparr>calls := calls w @ [HistoryCall TwelveData symb]\<rparr>)"

definition tryYahoo :: "env \<Rightarrow> string \<Rightarrow> world \<Rightarrow> history_row list option \<times> world" where
  "tryYahoo E symb w =
     (case yahooHistorical E symb of
        Data rs \<Rightarrow> if rs = [] then None else Some (map (fromYahoo symb) rs)
      | Throws \<Rightarrow> None
      | NoData \<Rightarrow> None,
      w\<lparr>calls := calls w @ [HistoryCall Yahoo symb]\<rparr>)"

definition tryFMP :: "env \<Rightarrow> string \<Rightarrow> world \<Rightarrow> history_row list option \<times> world" where
  "tryFMP E symb w =
     (case fmpHistorical E symb of
        Data rs \<Rightarrow> Some (map (fromFMP symb) rs)
      | Throws \<Rightarrow> None
      | NoData \<Rightarrow> None,
      w\<lparr>calls := calls w @ [HistoryCall FMP symb]\<rparr>)"

definition fetchHistoryData :: "env \<Rightarrow> string \<Rightarrow> world \<Rightarrow> history_row list option \<times> world" where
  "fetchHistoryData E symb w =
     (case tryTwelveData E symb w of
        (Some h1, w1) \<Rightarrow> (Some h1, w1)
      | (None, w1) \<Rightarrow>
          (case tryYahoo E symb w1 of
             (Some h2, w2) \<Rightarrow> (Some h2, w2)
           | (None, w2) \<Rightarrow> tryFMP E symb w2))"

text \<open>
  The operations of the transaction: \<^verbatim>\<open>deleteMany\<close>, \<^verbatim>\<open>createMany\<close> with
  \<^verbatim>\<open>skipDuplicates\<close>, and the metadata upsert, each as its effect on a store.

  Modelled from the spec: \<^verbatim>\<open>skipDuplicates\<close> skips a row whose (symbol, date) key is
  already in the table, rows inserted earlier by the same call included.
\<close>

fun createMany_skipDuplicates :: "history_row list \<Rightarrow> history_row list \<Rightarrow> history_row list" where
  "createMany_skipDuplicates [] table = table"
| "createMany_skipDuplicates (r # rs) table =
     (if list_ex (\<lambda>t. h_symbol t = h_symbol r \<and> h_date t = h_date r) table
      then createMany_skipDuplicates rs table
      else createMany_skipDuplicates rs (table @ [r]))"

definition tx_deleteMany :: "env \<Rightarrow> string \<Rightarrow> world \<Rightarrow> error + world" where
  "tx_deleteMany E symb w =
     (if failing E (HistoryDeleteMany symb) then Inl (DbError (HistoryDeleteMany symb))
      else Inr (w\<lparr>stockHistory := filter (\<lambda>h. h_symbol h \<noteq> symb) (stockHistory w)\<rparr>))"

definition tx_createMany :: "env \<Rightarrow> string \<Rightarrow> history_row list \<Rightarrow> world \<Rightarrow> error + world" where
  "tx_createMany E symb historyData w =
     (if failing E (HistoryCreateMany symb) then Inl (DbError (HistoryCreateMany symb))
      else Inr (w\<lparr>stockHistory := createMany_skipDuplicates historyData (stockHistory w)\<rparr>))"

text \<open>\<^verbatim>\<open>historyData[historyData.length - 1]?.date\<close> and \<^verbatim>\<open>historyData[0]?.date\<close>\<close>

definition lastDate :: "history_row list \<Rightarrow> timestamp option" where
  "lastDate historyData = (if historyData = [] then None else Some (h_date (last historyData)))"

definition firstDate :: "history_row list \<Rightarrow> timestamp option" where
  "firstDate historyData = (case historyData of [] \<Rightarrow> None | h # _ \<Rightarrow> Some (h_date h))"

definition tx_metadataUpsert ::
  "env \<Rightarrow> timestamp \<Rightarrow> string \<Rightarrow> history_row list \<Rightarrow> world \<Rightarrow> error + world" where
  "tx_metadataUpsert E now symb historyData w =
     (if failing E (MetadataUpsert symb) then Inl (DbError (MetadataUpsert symb))
      else Inr (w\<lparr>stockMetadata := (stockMetadata w)(symb \<mapsto>
             (case stockMetadata w symb of
                Some m \<Rightarrow> m\<lparr> m_historyStartDate := lastDate historyData,
                              m_historyEndDate := firstDate historyData,
                              m_lastFetchedAt := Some now \<rparr>
              | None \<Rightarrow> \<lparr> m_symbol = symb, m_name = None,
                           m_historyStartDate = lastDate historyData,
                           m_historyEndDate = firstDate historyData,
                           m_lastFetchedAt = Some now \<rparr>))\<rparr>))"

text \<open>
  \<^verbatim>\<open>prisma.$transaction(async (tx) => { ... })\<close>.

  Modelled from the spec: the transaction is atomic. An operation issued on the
  transaction client \<^verbatim>\<open>tx\<close> acts on the working copy of the transaction, which no
  other client reads; an operation issued on the global client \<^verbatim>\<open>prisma\<close> acts on
  the committed store at once. When the callback returns, the working copy becomes
  the committed store; when it raises, the working copy is dropped.

  \<open>runCallback\<close> runs the operations of the callback in order and records, after
  each of them, the committed store: what a reader on another connection finds at
  that moment. \<open>transaction\<close> adds the store at the start and the store after the
  commit or the rollback.
\<close>

datatype client = Prisma | Tx

record session =
  committed :: world
  working :: world

definition issue :: "client \<Rightarrow> (world \<Rightarrow> error + world) \<Rightarrow> session \<Rightarrow> error + session" where
  "issue c operation s =
     (case c of
        Tx \<Rightarrow>
          (case operation (working s) of
             Inl e \<Rightarrow> Inl e
           | Inr w' \<Rightarrow> Inr (s\<lparr>working := w'\<rparr>))
      | Prisma \<Rightarrow>
          (case operation (committed s) of
             Inl e \<Rightarrow> Inl e
           | Inr c' \<Rightarrow>
               (case operation (working s) of
                  Inl e \<Rightarrow> Inl e
                | Inr w' \<Rightarrow> Inr \<lparr>committed = c', working = w'\<rparr>)))"

fun runCallback ::
  "(session \<Rightarrow> error + session) list \<Rightarrow> session \<Rightarrow> world list
     \<Rightarrow> error option \<times> session \<times> world list" where
  "runCallback [] s views = (None, s, views)"
| "runCallback (f # fs) s views =
     (case f s of
        Inl e \<Rightarrow> (Some e, s, views @ [committed s])
      | Inr s' \<Rightarrow> runCallback fs s' (views @ [committed s']))"

definition transaction ::
  "(session \<Rightarrow> error + session) list \<Rightarrow> world \<Rightarrow> (error + world) \<times> world list" where
  "transaction callback w =
     (case runCallback callback \<lparr>committed = w, working = w\<rparr> [w] of
        (None, s, views) \<Rightarrow> (Inr (working s), views @ [working s])
      | (Some e, s, views) \<Rightarrow> (Inl e, views @ [committed s]))"

text \<open>
  The callback of \<^verbatim>\<open>fetchAndStoreHistoricalData\<close>: \<^verbatim>\<open>tx.stockHistory.deleteMany\<close>,
  \<^verbatim>\<open>tx.stockHistory.createMany\<close>, \<^verbatim>\<open>tx.stockMetadata.upsert\<close>, all three on \<^verbatim>\<open>tx\<close>.
  \<open>history_transaction\<close> is its outcome, the new committed store or the exception;
  \<open>history_views\<close> is what other clients can read while it runs.
\<close>

definition history_callback ::
  "env \<Rightarrow> timestamp \<Rightarrow> string \<Rightarrow> history_row list \<Rightarrow> (session \<Rightarrow> error + session) list" where
  "history_callback E now symb historyData =
     [issue Tx (tx_deleteMany E symb),
      issue Tx (tx_createMany E symb historyData),
      issue Tx (tx_metadataUpsert E now symb historyData)]"

definition history_transaction ::
  "env \<Rightarrow> timestamp \<Rightarrow> string \<Rightarrow> history_row list \<Rightarrow> world \<Rightarrow> error + world" where
  "history_transaction E now symb historyData w =
     fst (transaction (history_callback E now symb historyData) w)"

definition history_views ::
  "env \<Rightarrow> timestamp \<Rightarrow> string \<Rightarrow> history_row list \<Rightarrow> world \<Rightarrow> world list" where
  "history_views E now symb historyData w =
     snd (transaction (history_callback E now symb historyData) w)"

text \<open>
  \<^verbatim>\<open>fetchAndStoreHistoricalData\<close>. When the transaction raises, the store is the one
  before it (every operation of the callback was on \<^verbatim>\<open>tx\<close>), the \<^verbatim>\<open>catch\<close> logs,
  and control falls through to the final \<^verbatim>\<open>return getStoredHistoricalData(symbol)\<close>,
  whose \<^verbatim>\<open>days\<close> is the default.
\<close>

definition fetchAndStoreHistoricalData ::
  "env \<Rightarrow> timestamp \<Rightarrow> string \<Rightarrow> world \<Rightarrow> (error + history_point list) \<times> world" where
  "fetchAndStoreHistoricalData E now symb w =
     (case fetchHistoryData E symb w of
        (None, w') \<Rightarrow> (getStoredHistoricalData E now symb (365 * 5) w', w')
      | (Some historyData, w') \<Rightarrow>
          (if historyData = [] then (getStoredHistoricalData E now symb (365 * 5) w', w')
           else (case history_transaction E now symb historyData w' of
                   Inr w'' \<Rightarrow> (Inr (map fetchedPoint historyData), w'')
                 | Inl dbError \<Rightarrow> (getStoredHistoricalData E now symb (365 * 5) w', w'))))"

record options =
  opt_days :: "int option"
  opt_forceRefresh :: "bool option"

definition getHistoricalData ::
  "env \<Rightarrow> timestamp \<Rightarrow> string \<Rightarrow> options \<Rightarrow> world \<Rightarrow> (error + history_point list) \<times> world" where
  "getHistoricalData E now symb opts w =
     (let days = (case opt_days opts of None \<Rightarrow> 365 * 5 | Some d \<Rightarrow> d);
          forceRefresh = (case opt_forceRefresh opts of None \<Rightarrow> False | Some b \<Rightarrow> b);
          upperSymbol = toUpperCase symb
      in if forceRefresh then fetchAndStoreHistoricalData E now upperSymbol w
         else (case stockMetadata_findUnique E upperSymbol w of
                 Inl e \<Rightarrow> (Inl e, w)
               | Inr None \<Rightarrow> fetchAndStoreHistoricalData E now upperSymbol w
               | Inr (Some md) \<Rightarrow>
                   (case m_lastFetchedAt md of
                      None \<Rightarrow> fetchAndStoreHistoricalData E now upperSymbol w
                    | Some t \<Rightarrow>
                        if now - t < ONE_DAY_MS
                        then (getStoredHistoricalData E now upperSymbol days w, w)
                        else fetchAndStoreHistoricalData E now upperSymbol w)))"

subsection \<open>Snapshot service\<close>

text \<open>
  \<^verbatim>\<open>setHours(0, 0, 0, 0)\<close> and \<^verbatim>\<open>setDate(getDate() - i)\<close> in a zone with the fixed
  offset \<open>tzOffset\<close> from UTC (daylight saving is not modelled).
\<close>

definition startOfDay :: "int \<Rightarrow> timestamp \<Rightarrow> timestamp" where
  "startOfDay off t = t - (t + off) mod ONE_DAY_MS"

definition minusDays :: "timestamp \<Rightarrow> nat \<Rightarrow> timestamp" where
  "minusDays d i = d - int i * ONE_DAY_MS"

definition portfolio_findMany :: "env \<Rightarrow> string \<Rightarrow> world \<Rightarrow> error + portfolio_row list" where
  "portfolio_findMany E userId w =
     (if failing E (PortfolioFindMany userId) then Inl (DbError (PortfolioFindMany userId))
      else Inr (filter (\<lambda>p. pf_userId p = userId) (portfolio w)))"

text \<open>\<^verbatim>\<open>[...new Set(xs)]\<close>: the distinct elements in the order of first occurrence.\<close>

definition uniqueSymbols :: "string list \<Rightarrow> string list" where
  "uniqueSymbols xs = fold (\<lambda>x acc. if x \<in> set acc then acc else acc @ [x]) xs []"

text \<open>
  \<^verbatim>\<open>portfolioSnapshot.upsert\<close> on the key (userId, date): the row with that key is
  overwritten where it stands, otherwise a new row is added.
\<close>

definition snapshotKey :: "string \<Rightarrow> timestamp \<Rightarrow> snapshot \<Rightarrow> bool" where
  "snapshotKey userId d s = (s_userId s = userId \<and> s_date s = d)"

definition portfolioSnapshot_upsert ::
  "env \<Rightarrow> string \<Rightarrow> timestamp \<Rightarrow> real \<Rightarrow> real \<Rightarrow> real \<Rightarrow> world \<Rightarrow> error + (snapshot \<times> world)" where
  "portfolioSnapshot_upsert E userId d totalValue totalCost dayGain w =
     (if failing E (SnapshotUpsert userId d) then Inl (DbError (SnapshotUpsert userId d))
      else (let row = \<lparr> s_userId = userId, s_date = d, s_totalValue = totalValue,
                        s_totalCost = totalCost, s_dayGain = dayGain \<rparr>
            in if list_ex (snapshotKey userId d) (portfolioSnapshot w)
               then Inr (row, w\<lparr>portfolioSnapshot :=
                           map (\<lambda>s. if snapshotKey userId d s then row else s)
                               (portfolioSnapshot w)\<rparr>)
               else Inr (row, w\<lparr>portfolioSnapshot := portfolioSnapshot w @ [row]\<rparr>)))"

text \<open>
  The body of \<^verbatim>\<open>allHoldings.forEach\<close> in \<^verbatim>\<open>recordDailySnapshot\<close>, on the triple
  (totalValue, totalCost, totalDayGain).
\<close>

definition addHolding :: "(string \<rightharpoonup> quote) \<Rightarrow> holding \<Rightarrow> real \<times> real \<times> real \<Rightarrow> real \<times> real \<times> real" where
  "addHolding quotes h acc =
     (case acc of (totalValue, totalCost, totalDayGain) \<Rightarrow>
        (case quotes (symbol h) of
           Some q \<Rightarrow> (totalValue + shares h * q_price q,
                      totalCost + shares h * avgCostBasis h,
                      totalDayGain + shares h * orElse (q_changeAmount q) 0)
         | None \<Rightarrow> (totalValue + shares h * avgCostBasis h,
                    totalCost + shares h * avgCostBasis h,
                    totalDayGain + shares h * orElse (Some 0) 0)))"

definition recordDailySnapshot_body ::
  "env \<Rightarrow> timestamp \<Rightarrow> string \<Rightarrow> world \<Rightarrow> (error + snapshot option) \<times> world" where
  "recordDailySnapshot_body E now userId w =
     (let today = startOfDay (tzOffset E) now
      in case portfolio_findMany E userId w of
           Inl e \<Rightarrow> (Inl e, w)
         | Inr portfolios \<Rightarrow>
             (if portfolios = [] then (Inr None, w)
              else (let allHoldings = concat (map holdings portfolios)
                    in if allHoldings = [] then (Inr None, w)
                       else (case getQuotes E now (uniqueSymbols (map symbol allHoldings)) w of
                               (Inl e, w') \<Rightarrow> (Inl e, w')
                             | (Inr quotes, w') \<Rightarrow>
                                 (case fold (addHolding quotes) allHoldings (0, 0, 0) of
                                    (totalValue, totalCost, totalDayGain) \<Rightarrow>
                                      (case portfolioSnapshot_upsert E userId today
                                              totalValue totalCost totalDayGain w' of
                                         Inl e \<Rightarrow> (Inl e, w')
                                       | Inr (snapshot, w'') \<Rightarrow> (Inr (Some snapshot), w'')))))))"

text \<open>The \<^verbatim>\<open>try { ... } catch (error) { ...; return null; }\<close> around the whole body.\<close>

definition recordDailySnapshot ::
  "env \<Rightarrow> timestamp \<Rightarrow> string \<Rightarrow> world \<Rightarrow> (error + snapshot option) \<times> world" where
  "recordDailySnapshot E now userId w =
     (case recordDailySnapshot_body E now userId w of
        (Inl error, w') \<Rightarrow> (Inr None, w')
      | (Inr r, w') \<Rightarrow> (Inr r, w'))"

text \<open>
  Loading \<^verbatim>\<open>historicalData[symbol]\<close> for every symbol: the first \<^verbatim>\<open>days\<close> rows in
  ascending order of date.
\<close>

fun loadHistory ::
  "env \<Rightarrow> nat \<Rightarrow> string list \<Rightarrow> (string \<rightharpoonup> history_row list) \<Rightarrow> world
     \<Rightarrow> error + (string \<rightharpoonup> history_row list)" where
  "loadHistory E days [] historicalData w = Inr historicalData"
| "loadHistory E days (s # ss) historicalData w =
     (case stockHistory_findMany_take E s days w of
        Inl e \<Rightarrow> Inl e
      | Inr history \<Rightarrow> loadHistory E days ss (historicalData(s \<mapsto> history)) w)"

text \<open>\<^verbatim>\<open>history.find(h => { ...; return hDate.getTime() === date.getTime(); })\<close>\<close>

definition findDay :: "int \<Rightarrow> timestamp \<Rightarrow> history_row list \<Rightarrow> history_row option" where
  "findDay off d history = find (\<lambda>h. startOfDay off (h_date h) = d) history"

text \<open>
  The body of \<^verbatim>\<open>for (const holding of allHoldings)\<close>, on
  (totalValue, totalCost, prevDayValue, hasData).
\<close>

definition addHoldingAt ::
  "int \<Rightarrow> (string \<rightharpoonup> history_row list) \<Rightarrow> timestamp \<Rightarrow> holding
     \<Rightarrow> real \<times> real \<times> real \<times> bool \<Rightarrow> real \<times> real \<times> real \<times> bool" where
  "addHoldingAt off historicalData d h acc =
     (case acc of (totalValue, totalCost, prevDayValue, hasData) \<Rightarrow>
        (let history = (case historicalData (symbol h) of None \<Rightarrow> [] | Some hs \<Rightarrow> hs)
         in case findDay off d history of
              Some dayData \<Rightarrow>
                (totalValue + shares h * h_close dayData,
                 totalCost + shares h * avgCostBasis h,
                 (case findDay off (minusDays d 1) history of
                    Some prevData \<Rightarrow> prevDayValue + shares h * h_close prevData
                  | None \<Rightarrow> prevDayValue + shares h * h_close dayData),
                 True)
            | None \<Rightarrow>
                (totalValue + shares h * avgCostBasis h,
                 totalCost + shares h * avgCostBasis h,
                 prevDayValue + shares h * avgCostBasis h,
                 hasData)))"

text \<open>
  One iteration of \<^verbatim>\<open>for (let i = days; i >= 0; i--)\<close>. The upsert has its own
  \<^verbatim>\<open>try\<close>/\<^verbatim>\<open>catch\<close>: when it raises, nothing is pushed and the loop goes on.
\<close>

definition dayStep ::
  "env \<Rightarrow> string \<Rightarrow> holding list \<Rightarrow> (string \<rightharpoonup> history_row list) \<Rightarrow> timestamp \<Rightarrow> nat
     \<Rightarrow> snapshot list \<times> world \<Rightarrow> snapshot list \<times> world" where
  "dayStep E userId allHoldings historicalData today i st =
     (case st of (snapshots, w) \<Rightarrow>
        (let d = minusDays today i
         in case fold (addHoldingAt (tzOffset E) historicalData d) allHoldings (0, 0, 0, False) of
              (totalValue, totalCost, prevDayValue, hasData) \<Rightarrow>
                (if hasData \<or> i = 0
                 then (case portfolioSnapshot_upsert E userId d totalValue totalCost
                              (totalValue - prevDayValue) w of
                         Inr (snapshot, w') \<Rightarrow> (snapshots @ [snapshot], w')
                       | Inl err \<Rightarrow> (snapshots, w))
                 else (snapshots, w))))"

fun dayLoop ::
  "env \<Rightarrow> string \<Rightarrow> holding list \<Rightarrow> (string \<rightharpoonup> history_row list) \<Rightarrow> timestamp \<Rightarrow> nat
     \<Rightarrow> snapshot list \<times> world \<Rightarrow> snapshot list \<times> world" where
  "dayLoop E userId allHoldings historicalData today 0 st =
     dayStep E userId allHoldings historicalData today 0 st"
| "dayLoop E userId allHoldings historicalData today (Suc i) st =
     dayLoop E userId allHoldings historicalData today i
       (dayStep E userId allHoldings historicalData today (Suc i) st)"

definition generateHistoricalSnapshots_body ::
  "env \<Rightarrow> timestamp \<Rightarrow> string \<Rightarrow> nat \<Rightarrow> world \<Rightarrow> (error + snapshot list) \<times> world" where
  "generateHistoricalSnapshots_body E now userId days w =
     (case portfolio_findMany E userId w of
        Inl e \<Rightarrow> (Inl e, w)
      | Inr portfolios \<Rightarrow>
          (let allHoldings = concat (map holdings portfolios)
           in if allHoldings = [] then (Inr [], w)
              else (case loadHistory E days (uniqueSymbols (map symbol allHoldings)) Map.empty w of
                      Inl e \<Rightarrow> (Inl e, w)
                    | Inr historicalData \<Rightarrow>
                        (case dayLoop E userId allHoldings historicalData
                                (startOfDay (tzOffset E) now) days ([], w) of
                           (snapshots, w') \<Rightarrow> (Inr snapshots, w')))))"

text \<open>The outer \<^verbatim>\<open>try { ... } catch (error) { ...; return []; }\<close>.\<close>

definition generateHistoricalSnapshots ::
  "env \<Rightarrow> timestamp \<Rightarrow> string \<Rightarrow> nat \<Rightarrow> world \<Rightarrow> (error + snapshot list) \<times> world" where
  "generateHistoricalSnapshots E now userId days w =
     (case generateHistoricalSnapshots_body E now userId days w of
        (Inl error, w') \<Rightarrow> (Inr [], w')
      | (Inr r, w') \<Rightarrow> (Inr r, w'))"

subsection \<open>Predicates of the specification\<close>

text \<open>
  An adapter outcome that \<^verbatim>\<open>getQuote\<close> cannot use: an exception, no result, or a
  result whose price is missing or not positive.
\<close>

definition unusable :: "adapter_result outcome \<Rightarrow> bool" where
  "unusable out = (case out of Data r \<Rightarrow> \<not> validPrice r | Throws \<Rightarrow> True | NoData \<Rightarrow> True)"

text \<open>The cached row, if any, is younger than 30 seconds.\<close>

definition cachedFresh :: "timestamp \<Rightarrow> quote option \<Rightarrow> bool" where
  "cachedFresh now cached = (case cached of None \<Rightarrow> False | Some c \<Rightarrow> freshQuote now c)"

text \<open>Two worlds with the same tables (the trace of provider calls may differ).\<close>

definition sameTables :: "world \<Rightarrow> world \<Rightarrow> bool" where
  "sameTables w w' =
     (stockQuote w' = stockQuote w \<and> stockMetadata w' = stockMetadata w \<and>
      stockHistory w' = stockHistory w \<and> portfolio w' = portfolio w \<and>
      portfolioSnapshot w' = portfolioSnapshot w)"

text \<open>Two worlds that differ at most in the quote cache and the trace.\<close>

definition quoteTablesOnly :: "world \<Rightarrow> world \<Rightarrow> bool" where
  "quoteTablesOnly w w' =
     (stockMetadata w' = stockMetadata w \<and> stockHistory w' = stockHistory w \<and>
      portfolio w' = portfolio w \<and> portfolioSnapshot w' = portfolioSnapshot w)"

text \<open>\<^verbatim>\<open>portfolios.flatMap(p => p.holdings)\<close> for the portfolios of a user.\<close>

definition userHoldings :: "string \<Rightarrow> world \<Rightarrow> holding list" where
  "userHoldings userId w = concat (map holdings (filter (\<lambda>p. pf_userId p = userId) (portfolio w)))"

text \<open>
  The price and the day change a holding is given by a \<^verbatim>\<open>getQuotes\<close> result: those
  of the entry under its symbol, the cost basis and 0 when there is none.
\<close>

definition quotedPrice :: "(string \<rightharpoonup> quote) \<Rightarrow> holding \<Rightarrow> real" where
  "quotedPrice quotes h = (case quotes (symbol h) of None \<Rightarrow> avgCostBasis h | Some q \<Rightarrow> q_price q)"

definition quotedChange :: "(string \<rightharpoonup> quote) \<Rightarrow> holding \<Rightarrow> real" where
  "quotedChange quotes h =
     (case quotes (symbol h) of
        None \<Rightarrow> 0
      | Some q \<Rightarrow> (case q_changeAmount q of None \<Rightarrow> 0 | Some c \<Rightarrow> c))"

text \<open>The key of a snapshot, a snapshot row, and the table after an upsert of a row.\<close>

definition snapshotKeyOf :: "snapshot \<Rightarrow> string \<times> timestamp" where
  "snapshotKeyOf s = (s_userId s, s_date s)"

definition snapshotRow :: "string \<Rightarrow> timestamp \<Rightarrow> real \<Rightarrow> real \<Rightarrow> real \<Rightarrow> snapshot" where
  "snapshotRow userId d totalValue totalCost dayGain =
     \<lparr> s_userId = userId, s_date = d, s_totalValue = totalValue, s_totalCost = totalCost,
       s_dayGain = dayGain \<rparr>"

definition upsertedRows :: "string \<Rightarrow> timestamp \<Rightarrow> snapshot \<Rightarrow> snapshot list \<Rightarrow> snapshot list" where
  "upsertedRows userId d row rows =
     (if list_ex (snapshotKey userId d) rows
      then map (\<lambda>s. if snapshotKey userId d s then row else s) rows
      else rows @ [row])"

text \<open>
  For the backfill: the rows loaded for a holding, whether one of them is of day
  \<open>d\<close>, what the holding adds to the value and to the baseline of that day, whether
  iteration \<open>i\<close> pushes a snapshot, and whether the store has a row of day \<open>d\<close> for
  the symbol of some holding.
\<close>

definition loadedHistory :: "(string \<rightharpoonup> history_row list) \<Rightarrow> holding \<Rightarrow> history_row list" where
  "loadedHistory hdata h = (case hdata (symbol h) of None \<Rightarrow> [] | Some rows \<Rightarrow> rows)"

definition hasPointAt :: "int \<Rightarrow> (string \<rightharpoonup> history_row list) \<Rightarrow> timestamp \<Rightarrow> holding \<Rightarrow> bool" where
  "hasPointAt off hdata d h = list_ex (\<lambda>r. startOfDay off (h_date r) = d) (loadedHistory hdata h)"

definition valueAt :: "int \<Rightarrow> (string \<rightharpoonup> history_row list) \<Rightarrow> timestamp \<Rightarrow> holding \<Rightarrow> real" where
  "valueAt off hdata d h =
     (case findDay off d (loadedHistory hdata h) of
        None \<Rightarrow> shares h * avgCostBasis h
      | Some r \<Rightarrow> shares h * h_close r)"

definition baselineAt :: "int \<Rightarrow> (string \<rightharpoonup> history_row list) \<Rightarrow> timestamp \<Rightarrow> holding \<Rightarrow> real" where
  "baselineAt off hdata d h =
     (case findDay off d (loadedHistory hdata h) of
        None \<Rightarrow> shares h * avgCostBasis h
      | Some r \<Rightarrow>
          (case findDay off (minusDays d 1) (loadedHistory hdata h) of
             None \<Rightarrow> shares h * h_close r
           | Some p \<Rightarrow> shares h * h_close p))"

definition dayQualifies ::
  "env \<Rightarrow> string \<Rightarrow> holding list \<Rightarrow> (string \<rightharpoonup> history_row list) \<Rightarrow> timestamp \<Rightarrow> nat \<Rightarrow> bool" where
  "dayQualifies E userId hs hdata today i =
     ((list_ex (hasPointAt (tzOffset E) hdata (minusDays today i)) hs \<or> i = 0)
      \<and> \<not> failing E (SnapshotUpsert userId (minusDays today i)))"

definition storedPointOn :: "int \<Rightarrow> world \<Rightarrow> holding list \<Rightarrow> timestamp \<Rightarrow> bool" where
  "storedPointOn off w hs d =
     list_ex (\<lambda>h. list_ex (\<lambda>r. h_symbol r = symbol h \<and> startOfDay off (h_date r) = d)
                      (stockHistory w)) hs"

subsection \<open>Sample data\<close>

text \<open>
  Environments and worlds for the concrete instances below. Times are in
  milliseconds; day \<open>n\<close> is \<open>n * ONE_DAY_MS\<close>, and the zone is UTC.
\<close>

definition quoteAAPL :: quote where
  "quoteAAPL = \<lparr> q_symbol = ''AAPL'', q_name = ''Apple'', q_price = 160,
     q_previousClose = Some 155, q_open = None, q_high = None, q_low = None,
     q_volume = None, q_marketCap = None, q_changeAmount = Some 5,
     q_changePercent = None, q_updatedAt = Some 1000 \<rparr>"

definition quoteFetched :: quote where
  "quoteFetched = \<lparr> q_symbol = ''AAPL'', q_name = ''Apple'', q_price = 160,
     q_previousClose = Some 155, q_open = None, q_high = None, q_low = None,
     q_volume = None, q_marketCap = None, q_changeAmount = Some 5,
     q_changePercent = None, q_updatedAt = None \<rparr>"

definition resAAPL :: adapter_result where
  "resAAPL = \<lparr> r_name = ''Apple'', r_price = Some 160, r_previousClose = Some 155,
     r_open = None, r_high = None, r_low = None, r_volume = None, r_marketCap = None,
     r_changeAmount = Some 5, r_changePercent = None \<rparr>"

definition metaAAPL :: metadata where
  "metaAAPL = \<lparr> m_symbol = ''AAPL'', m_name = None, m_historyStartDate = None,
     m_historyEndDate = None, m_lastFetchedAt = Some (10 * ONE_DAY_MS - 7200000) \<rparr>"

definition rowAt :: "string \<Rightarrow> timestamp \<Rightarrow> real \<Rightarrow> history_row" where
  "rowAt symb d c = \<lparr> h_symbol = symb, h_date = d, h_open = c, h_high = c, h_low = c,
     h_close = c, h_adjClose = c, h_volume = 0 \<rparr>"

definition tdRow :: "timestamp \<Rightarrow> real \<Rightarrow> td_row" where
  "tdRow d c = \<lparr> td_datetime = d, td_open = Some c, td_high = Some c, td_low = Some c,
     td_close = Some c, td_volume = None \<rparr>"

definition fmpRow :: "timestamp \<Rightarrow> real \<Rightarrow> fmp_row" where
  "fmpRow d c = \<lparr> f_date = d, f_open = c, f_high = c, f_low = c, f_close = c,
     f_adjClose = None, f_volume = None \<rparr>"

definition envDown :: env where
  "envDown = \<lparr> quoteAdapter = (\<lambda>s x. Throws), twelveDataSeries = (\<lambda>x. Throws),
     yahooHistorical = (\<lambda>x. Throws), fmpHistorical = (\<lambda>x. NoData),
     failing = (\<lambda>op. False), tzOffset = 0 \<rparr>"

definition envQuote :: env where
  "envQuote = \<lparr> quoteAdapter = (\<lambda>s x. Data resAAPL), twelveDataSeries = (\<lambda>x. Throws),
     yahooHistorical = (\<lambda>x. Throws), fmpHistorical = (\<lambda>x. NoData),
     failing = (\<lambda>op. False), tzOffset = 0 \<rparr>"

definition envTwelve :: env where
  "envTwelve = \<lparr> quoteAdapter = (\<lambda>s x. Throws),
     twelveDataSeries = (\<lambda>x. Data [tdRow (9 * ONE_DAY_MS) 20, tdRow (8 * ONE_DAY_MS) 10]),
     yahooHistorical = (\<lambda>x. Throws), fmpHistorical = (\<lambda>x. NoData),
     failing = (\<lambda>op. False), tzOffset = 0 \<rparr>"

definition envTwelveDup :: env where
  "envTwelveDup = \<lparr> quoteAdapter = (\<lambda>s x. Throws),
     twelveDataSeries = (\<lambda>x. Data [tdRow (9 * ONE_DAY_MS) 20, tdRow (9 * ONE_DAY_MS) 10]),
     yahooHistorical = (\<lambda>x. Throws), fmpHistorical = (\<lambda>x. NoData),
     failing = (\<lambda>op. False), tzOffset = 0 \<rparr>"

definition envTxFail :: env where
  "envTxFail = \<lparr> quoteAdapter = (\<lambda>s x. Throws),
     twelveDataSeries = (\<lambda>x. Data [tdRow (9 * ONE_DAY_MS) 20, tdRow (8 * ONE_DAY_MS) 10]),
     yahooHistorical = (\<lambda>x. Throws), fmpHistorical = (\<lambda>x. NoData),
     failing = (\<lambda>op. op = HistoryCreateMany ''AAPL''), tzOffset = 0 \<rparr>"

definition envFMP :: env where
  "envFMP = \<lparr> quoteAdapter = (\<lambda>s x. Throws),
     twelveDataSeries = (\<lambda>x. Throws), yahooHistorical = (\<lambda>x. Throws),
     fmpHistorical = (\<lambda>x. Data [fmpRow (9 * ONE_DAY_MS) 20, fmpRow (8 * ONE_DAY_MS) 10]),
     failing = (\<lambda>op. False), tzOffset = 0 \<rparr>"

definition envDbDown :: env where
  "envDbDown = \<lparr> quoteAdapter = (\<lambda>s x. Data resAAPL), twelveDataSeries = (\<lambda>x. Throws),
     yahooHistorical = (\<lambda>x. Throws), fmpHistorical = (\<lambda>x. NoData),
     failing = (\<lambda>op. True), tzOffset = 0 \<rparr>"

definition envUpsertFail :: env where
  "envUpsertFail = \<lparr> quoteAdapter = (\<lambda>s x. Data resAAPL), twelveDataSeries = (\<lambda>x. Throws),
     yahooHistorical = (\<lambda>x. Throws), fmpHistorical = (\<lambda>x. NoData),
     failing = (\<lambda>op. op = SnapshotUpsert ''u1'' (9 * ONE_DAY_MS)), tzOffset = 0 \<rparr>"

definition worldCached :: world where
  "worldCached = \<lparr> stockQuote = [''AAPL'' \<mapsto> quoteAAPL], stockMetadata = Map.empty,
     stockHistory = [], portfolio = [], portfolioSnapshot = [], calls = [] \<rparr>"

definition worldHistory :: world where
  "worldHistory = \<lparr> stockQuote = Map.empty, stockMetadata = [''AAPL'' \<mapsto> metaAAPL],
     stockHistory = [rowAt ''AAPL'' (9 * ONE_DAY_MS) 103, rowAt ''MSFT'' (9 * ONE_DAY_MS) 50,
                     rowAt ''AAPL'' (5 * ONE_DAY_MS) 101, rowAt ''AAPL'' (8 * ONE_DAY_MS) 102],
     portfolio = [], portfolioSnapshot = [], calls = [] \<rparr>"

definition worldUser :: world where
  "worldUser = \<lparr> stockQuote = Map.empty, stockMetadata = Map.empty,
     stockHistory = [rowAt ''AAPL'' (9 * ONE_DAY_MS) 103, rowAt ''MSFT'' (9 * ONE_DAY_MS) 50,
                     rowAt ''AAPL'' (5 * ONE_DAY_MS) 101, rowAt ''AAPL'' (8 * ONE_DAY_MS) 102],
     portfolio = [\<lparr> pf_userId = ''u1'',
                    holdings = [\<lparr> symbol = ''AAPL'', shares = 10, avgCostBasis = 150 \<rparr>] \<rparr>,
                  \<lparr> pf_userId = ''u2'', holdings = [] \<rparr>],
     portfolioSnapshot = [], calls = [] \<rparr>"

definition worldUser1 :: world where
  "worldUser1 = worldUser\<lparr> stockQuote := [''AAPL'' \<mapsto> quoteFetched\<lparr>q_updatedAt := Some (10 * ONE_DAY_MS + 5000)\<rparr>],
       calls := [QuoteCall FMP ''AAPL''] \<rparr>"

definition worldVolumes :: world where
  "worldVolumes = \<lparr> stockQuote = Map.empty, stockMetadata = [''AAPL'' \<mapsto> metaAAPL],
     stockHistory =
       [\<lparr> h_symbol = ''AAPL'', h_date = 9 * ONE_DAY_MS, h_open = 102, h_high = 105,
          h_low = 101, h_close = 103, h_adjClose = 103.5, h_volume = 1000 \<rparr>,
        \<lparr> h_symbol = ''MSFT'', h_date = 9 * ONE_DAY_MS, h_open = 50, h_high = 51,
          h_low = 49, h_close = 50, h_adjClose = 50, h_volume = 700 \<rparr>,
        \<lparr> h_symbol = ''AAPL'', h_date = 5 * ONE_DAY_MS, h_open = 99, h_high = 102,
          h_low = 98, h_close = 101, h_adjClose = 101, h_volume = 3000 \<rparr>,
        \<lparr> h_symbol = ''AAPL'', h_date = 8 * ONE_DAY_MS, h_open = 101, h_high = 104,
          h_low = 100, h_close = 102, h_adjClose = 102.5, h_volume = 2500 \<rparr>],
     portfolio = [], portfolioSnapshot = [], calls = [] \<rparr>"

section \<open>Verified properties\<close>

subsection \<open>Quote aggregator\<close>

lemma trySources_unusable:
  "list_all (\<lambda>s. unusable (quoteAdapter E s U)) ss \<Longrightarrow>
   trySources E now U ss w = (None, w\<lparr>calls := calls w @ map (\<lambda>s. QuoteCall s U) ss\<rparr>)"
proof (induction ss arbitrary: w)
  case Nil
  then show ?case by simp
next
  case (Cons s ss)
  then show ?case
    by (cases "quoteAdapter E s U") (simp_all add: unusable_def)
qed

text \<open>\<^verbatim>\<open>v ? BigInt(v) : null\<close>: zero is falsy.\<close>

lemma bigIntOrNull_sample:
  "bigIntOrNull None = None" "bigIntOrNull (Some 0) = None" "bigIntOrNull (Some 12) = Some 12"
  by (simp_all add: bigIntOrNull_def)

text \<open>
  C8. When the row cached for the uppercased symbol was updated less than 30 seconds
  before the call, \<^verbatim>\<open>getQuote\<close> returns that row as it is and leaves the world
  as it was: the trace of provider invocations has no new entry, and the table
  \<^verbatim>\<open>stockQuote\<close> is untouched.
\<close>

theorem getQuote_fresh_cache:
  assumes "\<not> failing E (QuoteFindUnique (toUpperCase symb))"
    and "stockQuote w (toUpperCase symb) = Some c"
    and "q_updatedAt c = Some u"
    and "now - u < 30000"
  shows "getQuote E now symb w = (Inr (Some c), w)"
  using assms by (simp add: getQuote_def stockQuote_findUnique_def freshQuote_def)

theorem getQuote_fresh_cache_witness:
  "getQuote envDown 2000 ''aapl'' worldCached = (Inr (Some quoteAAPL), worldCached)"
  using getQuote_fresh_cache [of envDown "''aapl''" worldCached quoteAAPL 1000 2000]
  by (simp add: envDown_def worldCached_def quoteAAPL_def toUpperCase_def toUpperChar_def)

text \<open>
  C7. When every adapter raises, returns nothing, or returns a price that is not
  positive, \<^verbatim>\<open>getQuote\<close> returns the cached row of the uppercased symbol when there
  is one, whatever its age, and \<^verbatim>\<open>null\<close> when there is none. Unless the cached row
  was fresh, all five adapters were invoked, in their fixed order: no failure of one
  adapter kept the loop from the adapters after it. The tables are unchanged.
\<close>

theorem getQuote_all_adapters_unusable:
  assumes "\<not> failing E (QuoteFindUnique (toUpperCase symb))"
    and "list_all (\<lambda>s. unusable (quoteAdapter E s (toUpperCase symb))) sources"
  shows "getQuote E now symb w =
           (Inr (stockQuote w (toUpperCase symb)),
            if cachedFresh now (stockQuote w (toUpperCase symb)) then w
            else w\<lparr>calls := calls w @ map (\<lambda>s. QuoteCall s (toUpperCase symb)) sources\<rparr>)"
  using assms
  by (simp add: getQuote_def stockQuote_findUnique_def cachedFresh_def trySources_unusable Let_def)

theorem getQuote_all_adapters_unusable_witness:
  "getQuote envDown 50000 ''aapl'' worldCached =
     (Inr (Some quoteAAPL),
      worldCached\<lparr>calls := [QuoteCall FMP ''AAPL'', QuoteCall Finnhub ''AAPL'',
         QuoteCall TwelveData ''AAPL'', QuoteCall Yahoo ''AAPL'',
         QuoteCall AlphaVantage ''AAPL'']\<rparr>)
   \<and> fst (getQuote envDown 50000 ''msft'' worldCached) = Inr None"
  using getQuote_all_adapters_unusable [of envDown "''aapl''" 50000 worldCached]
    getQuote_all_adapters_unusable [of envDown "''msft''" 50000 worldCached]
  by (simp add: envDown_def worldCached_def quoteAAPL_def toUpperCase_def toUpperChar_def
      unusable_def sources_def cachedFresh_def freshQuote_def)

subsection \<open>History aggregator: the stored path\<close>

lemma bitLength_le_iff: "bitLength n \<le> k \<longleftrightarrow> n < 2 ^ k"
proof (induction n arbitrary: k rule: bitLength.induct)
  case (1 n)
  show ?case
  proof (cases "n = 0")
    case True
    then show ?thesis by (simp add: bitLength.simps)
  next
    case False
    show ?thesis
    proof (cases k)
      case 0
      with False show ?thesis by (simp add: bitLength.simps [of n])
    next
      case (Suc j)
      have "bitLength (n div 2) \<le> j \<longleftrightarrow> n div 2 < 2 ^ j" using "1.IH" [OF False] .
      moreover have "n div 2 < 2 ^ j \<longleftrightarrow> n < 2 ^ Suc j" by auto
      ultimately show ?thesis using False Suc by (simp add: bitLength.simps [of n])
    qed
  qed
qed

text \<open>
  \<^verbatim>\<open>Number\<close> keeps every integer up to \<open>2 ^ 53\<close> in magnitude; \<open>2 ^ 53 + 1\<close> is the
  first that it rounds, and \<open>2 ^ 53 + 3\<close> goes up to the even neighbour.
\<close>

lemma toNumber_exact: "\<bar>v\<bar> \<le> 2 ^ 53 \<Longrightarrow> toNumber v = v"
  by (simp add: toNumber_def)

lemma bitLength_eq: "2 ^ k \<le> n \<Longrightarrow> n < 2 ^ Suc k \<Longrightarrow> bitLength n = Suc k"
  using bitLength_le_iff [of n k] bitLength_le_iff [of n "Suc k"] by simp

lemma bitLength_54: "2 ^ 53 \<le> n \<Longrightarrow> n < 2 ^ 54 \<Longrightarrow> bitLength n = 54"
  using bitLength_eq [of 53 n] by simp

lemma toNumber_rounds:
  "toNumber 9007199254740993 = 9007199254740992"
  "toNumber 9007199254740995 = 9007199254740996"
  "toNumber (- 9007199254740993) = - 9007199254740992"
  by (simp_all add: toNumber_def roundToDouble_def bitLength_54 Let_def)

lemma roundToDouble_exact: "a < 2 ^ 53 \<Longrightarrow> roundToDouble a = a"
proof -
  assume "a < 2 ^ 53"
  then have "bitLength a \<le> 53" by (simp add: bitLength_le_iff)
  then show ?thesis by (simp add: roundToDouble_def)
qed

lemma storedPoint_date: "map p_date (map storedPoint hs) = map h_date hs"
  by (simp add: storedPoint_def)

text \<open>
  C9. With metadata for the uppercased symbol fetched less than 24 hours before the
  call and \<^verbatim>\<open>forceRefresh: false\<close>, \<^verbatim>\<open>getHistoricalData\<close> leaves the world as it
  was (no provider is invoked) and returns one point for each stored row of the
  uppercased symbol whose date is at least \<open>now - days\<close> (in milliseconds), in
  ascending order of date. A point has the date, open, high, low, close and adjusted
  close of its row and no symbol; its volume is the \<^verbatim>\<open>Number\<close> of the row's volume,
  which is that volume whenever its magnitude is at most \<open>2 ^ 53\<close>.
\<close>

theorem getHistoricalData_fresh_metadata:
  assumes "\<not> failing E (MetadataFindUnique (toUpperCase symb))"
    and "stockMetadata w (toUpperCase symb) = Some md"
    and "m_lastFetchedAt md = Some t"
    and "now - t < ONE_DAY_MS"
    and "\<not> failing E (HistoryFindMany (toUpperCase symb))"
  shows "\<exists>rows points.
           getHistoricalData E now symb \<lparr>opt_days = Some days, opt_forceRefresh = Some False\<rparr> w
             = (Inr points, w)
         \<and> rows = sort_key h_date
                    (filter (\<lambda>h. h_symbol h = toUpperCase symb \<and> now - days * ONE_DAY_MS \<le> h_date h)
                       (stockHistory w))
         \<and> points = map (\<lambda>h. \<lparr> p_symbol = None, p_date = h_date h, p_open = h_open h,
                                 p_high = h_high h, p_low = h_low h, p_close = h_close h,
                                 p_adjClose = h_adjClose h, p_volume = toNumber (h_volume h) \<rparr>) rows
         \<and> (list_all (\<lambda>h. \<bar>h_volume h\<bar> \<le> 2 ^ 53) rows \<longrightarrow> map p_volume points = map h_volume rows)
         \<and> sorted (map p_date points)
         \<and> mset rows = filter_mset (\<lambda>h. h_symbol h = toUpperCase symb \<and> now - days * ONE_DAY_MS \<le> h_date h)
                          (mset (stockHistory w))"
proof -
  let ?U = "toUpperCase symb"
  let ?rows = "sort_key h_date (filter (\<lambda>h. h_symbol h = ?U \<and> now - days * ONE_DAY_MS \<le> h_date h) (stockHistory w))"
  let ?pt = "\<lambda>h. \<lparr> p_symbol = None, p_date = h_date h, p_open = h_open h,
                    p_high = h_high h, p_low = h_low h, p_close = h_close h,
                    p_adjClose = h_adjClose h, p_volume = toNumber (h_volume h) \<rparr>"
  have sp: "storedPoint = ?pt" by (simp add: fun_eq_iff storedPoint_def)
  have fm: "stockHistory_findMany_gte E ?U (now - days * ONE_DAY_MS) w = Inr ?rows"
    using assms(5) by (simp add: stockHistory_findMany_gte_def)
  have res: "getHistoricalData E now symb \<lparr>opt_days = Some days, opt_forceRefresh = Some False\<rparr> w
               = (Inr (map ?pt ?rows), w)"
    using assms(1-4) fm
    by (simp add: getHistoricalData_def stockMetadata_findUnique_def getStoredHistoricalData_def sp)
  have vol: "list_all (\<lambda>h. \<bar>h_volume h\<bar> \<le> 2 ^ 53) ?rows \<longrightarrow>
               map p_volume (map ?pt ?rows) = map h_volume ?rows"
    by (auto simp: list_all_iff toNumber_exact)
  have srt: "sorted (map p_date (map ?pt ?rows))"
  proof -
    have "map p_date (map ?pt ?rows) = map h_date ?rows" by simp
    then show ?thesis by (simp only: sorted_sort_key)
  qed
  have ms: "mset ?rows = filter_mset (\<lambda>h. h_symbol h = ?U \<and> now - days * ONE_DAY_MS \<le> h_date h)
                           (mset (stockHistory w))"
    by simp
  from res vol srt ms show ?thesis by blast
qed

theorem getHistoricalData_fresh_metadata_witness:
  "getHistoricalData envDown (10 * ONE_DAY_MS) ''aapl''
      \<lparr>opt_days = Some 3, opt_forceRefresh = Some False\<rparr> worldVolumes
     = (Inr [\<lparr> p_symbol = None, p_date = 8 * ONE_DAY_MS, p_open = 101, p_high = 104,
               p_low = 100, p_close = 102, p_adjClose = 102.5, p_volume = 2500 \<rparr>,
             \<lparr> p_symbol = None, p_date = 9 * ONE_DAY_MS, p_open = 102, p_high = 105,
               p_low = 101, p_close = 103, p_adjClose = 103.5, p_volume = 1000 \<rparr>],
        worldVolumes)"
  using getHistoricalData_fresh_metadata [of envDown "''aapl''" worldVolumes metaAAPL
      "10 * ONE_DAY_MS - 7200000" "10 * ONE_DAY_MS" 3]
  by (simp add: envDown_def worldVolumes_def metaAAPL_def toUpperCase_def toUpperChar_def
      ONE_DAY_MS_def toNumber_exact)

subsection \<open>History aggregator: the refetch\<close>

lemma fetchHistoryData_calls:
  "fetchHistoryData E symb w = (r, w') \<Longrightarrow> \<exists>cs. w' = w\<lparr>calls := calls w @ cs\<rparr>"
  by (auto simp: fetchHistoryData_def tryTwelveData_def tryYahoo_def tryFMP_def
      split: outcome.splits if_splits)

lemma fetchHistoryData_symbol:
  "fetchHistoryData E symb w = (Some hs, w') \<Longrightarrow> list_all (\<lambda>h. h_symbol h = symb) hs"
  by (auto simp: fetchHistoryData_def tryTwelveData_def tryYahoo_def tryFMP_def
      fromTwelveData_def fromYahoo_def fromFMP_def list_all_iff
      split: outcome.splits if_splits)

lemma createMany_append:
  "list_all (\<lambda>h. h_symbol h = symb) hs \<Longrightarrow> list_all (\<lambda>t. h_symbol t \<noteq> symb) T0 \<Longrightarrow>
   createMany_skipDuplicates hs (T0 @ acc) = T0 @ createMany_skipDuplicates hs acc"
proof (induction hs arbitrary: acc)
  case Nil
  then show ?case by simp
next
  case (Cons r rs)
  from Cons.prems have r: "h_symbol r = symb" and rs: "list_all (\<lambda>h. h_symbol h = symb) rs"
    by simp_all
  have no: "\<not> list_ex (\<lambda>t. h_symbol t = h_symbol r \<and> h_date t = h_date r) T0"
    using Cons.prems(2) r by (auto simp: list_all_iff list_ex_iff)
  show ?case
  proof (cases "list_ex (\<lambda>t. h_symbol t = h_symbol r \<and> h_date t = h_date r) acc")
    case True
    then show ?thesis using no Cons.IH [OF rs Cons.prems(2)] by simp
  next
    case False
    then show ?thesis using no Cons.IH [OF rs Cons.prems(2), of "acc @ [r]"] by simp
  qed
qed

lemma createMany_set:
  "set (createMany_skipDuplicates hs acc) \<subseteq> set acc \<union> set hs"
proof (induction hs arbitrary: acc)
  case Nil
  then show ?case by simp
next
  case (Cons r rs)
  have a: "set (createMany_skipDuplicates rs acc) \<subseteq> set acc \<union> set rs" by (rule Cons.IH)
  have b: "set (createMany_skipDuplicates rs (acc @ [r])) \<subseteq> set (acc @ [r]) \<union> set rs"
    by (rule Cons.IH)
  show ?case
  proof (cases "list_ex (\<lambda>t. h_symbol t = h_symbol r \<and> h_date t = h_date r) acc")
    case True
    then show ?thesis using a by auto
  next
    case False
    then show ?thesis using b by auto
  qed
qed

lemma list_ex_key_date:
  "list_all (\<lambda>h. h_symbol h = symb) acc \<Longrightarrow> h_symbol r = symb \<Longrightarrow>
   list_ex (\<lambda>t. h_symbol t = h_symbol r \<and> h_date t = h_date r) acc
     = (h_date r \<in> h_date ` set acc)"
  by (induction acc) auto

lemma createMany_keys:
  "list_all (\<lambda>h. h_symbol h = symb) hs \<Longrightarrow> list_all (\<lambda>h. h_symbol h = symb) acc \<Longrightarrow>
   h_date ` set (createMany_skipDuplicates hs acc) = h_date ` set acc \<union> h_date ` set hs"
proof (induction hs arbitrary: acc)
  case Nil
  then show ?case by simp
next
  case (Cons r rs)
  from Cons.prems have r: "h_symbol r = symb" and rs: "list_all (\<lambda>h. h_symbol h = symb) rs"
    by simp_all
  note key = list_ex_key_date [OF Cons.prems(2) r]
  show ?case
  proof (cases "h_date r \<in> h_date ` set acc")
    case True
    have "h_date ` set (createMany_skipDuplicates rs acc) = h_date ` set acc \<union> h_date ` set rs"
      by (rule Cons.IH [OF rs Cons.prems(2)])
    then show ?thesis using True key by auto
  next
    case False
    have "list_all (\<lambda>h. h_symbol h = symb) (acc @ [r])" using Cons.prems(2) r by simp
    from Cons.IH [OF rs this]
    have "h_date ` set (createMany_skipDuplicates rs (acc @ [r]))
            = h_date ` set (acc @ [r]) \<union> h_date ` set rs" .
    then show ?thesis using False key by auto
  qed
qed

lemma createMany_distinct:
  "distinct (map h_date hs) \<Longrightarrow> list_all (\<lambda>h. h_symbol h = symb) hs \<Longrightarrow>
   list_all (\<lambda>h. h_symbol h = symb) acc \<Longrightarrow> h_date ` set acc \<inter> h_date ` set hs = {} \<Longrightarrow>
   createMany_skipDuplicates hs acc = acc @ hs"
proof (induction hs arbitrary: acc)
  case Nil
  then show ?case by simp
next
  case (Cons r rs)
  from Cons.prems have r: "h_symbol r = symb" and rs: "list_all (\<lambda>h. h_symbol h = symb) rs"
    by simp_all
  note key = list_ex_key_date [OF Cons.prems(3) r]
  have notin: "h_date r \<notin> h_date ` set acc" using Cons.prems(4) by auto
  have d: "distinct (map h_date rs)" and nr: "h_date r \<notin> h_date ` set rs"
    using Cons.prems(1) by simp_all
  have acc': "list_all (\<lambda>h. h_symbol h = symb) (acc @ [r])" using Cons.prems(3) r by simp
  have disj: "h_date ` set (acc @ [r]) \<inter> h_date ` set rs = {}"
    using Cons.prems(4) nr by auto
  have "createMany_skipDuplicates rs (acc @ [r]) = (acc @ [r]) @ rs"
    by (rule Cons.IH [OF d rs acc' disj])
  then show ?case using notin key by simp
qed

lemma history_transaction_seq:
  "history_transaction E now symb hs w =
     (case tx_deleteMany E symb w of
        Inl e \<Rightarrow> Inl e
      | Inr w1 \<Rightarrow>
          (case tx_createMany E symb hs w1 of
             Inl e \<Rightarrow> Inl e
           | Inr w2 \<Rightarrow> tx_metadataUpsert E now symb hs w2))"
  by (simp add: history_transaction_def transaction_def history_callback_def issue_def
      tx_deleteMany_def tx_createMany_def tx_metadataUpsert_def)

lemmas history_defs = fetchAndStoreHistoricalData_def fetchHistoryData_def tryTwelveData_def
  tryYahoo_def tryFMP_def history_transaction_seq tx_deleteMany_def tx_createMany_def
  tx_metadataUpsert_def getStoredHistoricalData_def stockHistory_findMany_gte_def
  fromTwelveData_def fromYahoo_def fromFMP_def orElse_def bigIntOrZero_def lastDate_def
  firstDate_def fetchedPoint_def storedPoint_def toNumber_def getHistoricalData_def
  stockMetadata_findUnique_def

lemma history_transaction_Inr:
  assumes "history_transaction E now symb hs w = Inr w''"
  shows "stockHistory w'' =
           createMany_skipDuplicates hs (filter (\<lambda>h. h_symbol h \<noteq> symb) (stockHistory w))"
    and "\<exists>md. stockMetadata w'' = (stockMetadata w)(symb \<mapsto> md) \<and>
           m_historyStartDate md = lastDate hs \<and> m_historyEndDate md = firstDate hs \<and>
           m_lastFetchedAt md = Some now"
    and "stockQuote w'' = stockQuote w" and "portfolio w'' = portfolio w"
    and "portfolioSnapshot w'' = portfolioSnapshot w" and "calls w'' = calls w"
  using assms
  by (auto simp: history_transaction_seq tx_deleteMany_def tx_createMany_def
      tx_metadataUpsert_def split: if_splits option.splits)

lemma fetchAndStore_commit:
  "fetchHistoryData E symb w = (Some hs, w') \<Longrightarrow> hs \<noteq> [] \<Longrightarrow>
   history_transaction E now symb hs w' = Inr w'' \<Longrightarrow>
   fetchAndStoreHistoricalData E now symb w = (Inr (map fetchedPoint hs), w'')"
  by (simp add: fetchAndStoreHistoricalData_def)

lemma fetchAndStore_abort:
  "fetchHistoryData E symb w = (Some hs, w') \<Longrightarrow> hs \<noteq> [] \<Longrightarrow>
   history_transaction E now symb hs w' = Inl e \<Longrightarrow>
   fetchAndStoreHistoricalData E now symb w = (getStoredHistoricalData E now symb (365 * 5) w', w')"
  by (simp add: fetchAndStoreHistoricalData_def)

lemma fetchHistoryData_sameTables:
  "fetchHistoryData E symb w = (r, w') \<Longrightarrow> sameTables w w'"
  using fetchHistoryData_calls [of E symb w r w'] by (auto simp: sameTables_def)

lemma history_views_cases:
  "history_views E now symb hs w =
     (case history_transaction E now symb hs w of
        Inr w'' \<Rightarrow> [w, w, w, w, w'']
      | Inl e \<Rightarrow>
          (if failing E (HistoryDeleteMany symb) then [w, w, w]
           else if failing E (HistoryCreateMany symb) then [w, w, w, w]
           else [w, w, w, w, w]))"
  by (simp add: history_views_def history_transaction_def transaction_def history_callback_def
      issue_def tx_deleteMany_def tx_createMany_def tx_metadataUpsert_def)

lemma history_views_old_or_new:
  "v \<in> set (history_views E now symb hs w) \<Longrightarrow>
   v = w \<or> history_transaction E now symb hs w = Inr v"
  by (auto simp: history_views_cases split: sum.splits if_splits)

lemma history_views_last:
  "history_views E now symb hs w \<noteq> [] \<and>
   last (history_views E now symb hs w) =
     (case history_transaction E now symb hs w of Inr w'' \<Rightarrow> w'' | Inl e \<Rightarrow> w)"
  by (simp add: history_views_cases split: sum.splits)

text \<open>
  C4. After a refetch in which a provider gave a batch that is not empty and the
  transaction committed, the stored rows of the symbol are the rows of the new batch,
  in order (a row whose date repeats an earlier row of the batch is skipped by
  \<^verbatim>\<open>skipDuplicates\<close>): every stored row of the symbol is a row of the batch, every
  date of the batch is stored, and when the dates of the batch are distinct the
  stored rows are the batch itself. No row of an earlier fetch remains, and the rows
  of other symbols are as before. The delete and the insert are operations of one
  transaction, both on its client: every store that another client can read while
  the transaction runs, from its start to its commit or rollback, holds for the
  symbol either the old rows or the new rows, and the last of these stores is the one
  the call leaves. When the transaction aborts, the history and metadata tables are
  those before the call.
\<close>

theorem refetch_replaces_history:
  assumes fetch: "fetchHistoryData E symb w = (Some hs, w')" and ne: "hs \<noteq> []"
  shows "(\<forall>w''. history_transaction E now symb hs w' = Inr w'' \<longrightarrow>
            snd (fetchAndStoreHistoricalData E now symb w) = w'' \<and>
            filter (\<lambda>h. h_symbol h = symb) (stockHistory w'') = createMany_skipDuplicates hs [] \<and>
            filter (\<lambda>h. h_symbol h \<noteq> symb) (stockHistory w'')
              = filter (\<lambda>h. h_symbol h \<noteq> symb) (stockHistory w) \<and>
            set (createMany_skipDuplicates hs []) \<subseteq> set hs \<and>
            h_date ` set (createMany_skipDuplicates hs []) = h_date ` set hs \<and>
            (distinct (map h_date hs) \<longrightarrow>
               filter (\<lambda>h. h_symbol h = symb) (stockHistory w'') = hs))
       \<and> (\<forall>e. history_transaction E now symb hs w' = Inl e \<longrightarrow>
            snd (fetchAndStoreHistoricalData E now symb w) = w' \<and>
            stockHistory w' = stockHistory w \<and> stockMetadata w' = stockMetadata w)
       \<and> (\<forall>v\<in>set (history_views E now symb hs w').
            filter (\<lambda>h. h_symbol h = symb) (stockHistory v)
              = filter (\<lambda>h. h_symbol h = symb) (stockHistory w)
            \<or> (history_transaction E now symb hs w' = Inr v \<and>
               filter (\<lambda>h. h_symbol h = symb) (stockHistory v) = createMany_skipDuplicates hs []))
       \<and> history_views E now symb hs w' \<noteq> []
       \<and> last (history_views E now symb hs w') = snd (fetchAndStoreHistoricalData E now symb w)"
proof -
  let ?T0 = "filter (\<lambda>h. h_symbol h \<noteq> symb) (stockHistory w)"
  have same: "stockHistory w' = stockHistory w" "stockMetadata w' = stockMetadata w"
    using fetchHistoryData_sameTables [OF fetch] by (simp_all add: sameTables_def)
  have hs: "list_all (\<lambda>h. h_symbol h = symb) hs" by (rule fetchHistoryData_symbol [OF fetch])
  have T0: "list_all (\<lambda>t. h_symbol t \<noteq> symb) ?T0" by (simp add: list_all_iff)
  have sub: "set (createMany_skipDuplicates hs []) \<subseteq> set hs"
    using createMany_set [of hs "[]"] by simp
  then have new: "list_all (\<lambda>h. h_symbol h = symb) (createMany_skipDuplicates hs [])"
    using hs by (auto simp: list_all_iff)
  have dates: "h_date ` set (createMany_skipDuplicates hs []) = h_date ` set hs"
    using createMany_keys [OF hs, of "[]"] by simp
  have tbl: "stockHistory w'' = ?T0 @ createMany_skipDuplicates hs []"
    if tx: "history_transaction E now symb hs w' = Inr w''" for w''
  proof -
    have "stockHistory w'' = createMany_skipDuplicates hs (?T0 @ [])"
      using history_transaction_Inr(1) [OF tx] same by simp
    then show ?thesis by (simp only: createMany_append [OF hs T0])
  qed
  have rows: "filter (\<lambda>h. h_symbol h = symb) (stockHistory w'') = createMany_skipDuplicates hs []"
    if tx: "history_transaction E now symb hs w' = Inr w''" for w''
    using new by (simp add: tbl [OF tx] list_all_iff filter_id_conv)
  have others: "filter (\<lambda>h. h_symbol h \<noteq> symb) (stockHistory w'') = ?T0"
    if tx: "history_transaction E now symb hs w' = Inr w''" for w''
    using new by (simp add: tbl [OF tx] list_all_iff filter_empty_conv)
  have whole: "filter (\<lambda>h. h_symbol h = symb) (stockHistory w'') = hs"
    if tx: "history_transaction E now symb hs w' = Inr w''" and d: "distinct (map h_date hs)" for w''
  proof -
    have "createMany_skipDuplicates hs [] = hs"
      using createMany_distinct [of hs symb "[]"] hs d by simp
    then show ?thesis using rows [OF tx] by simp
  qed
  have commit: "snd (fetchAndStoreHistoricalData E now symb w) = w''"
    if tx: "history_transaction E now symb hs w' = Inr w''" for w''
    by (simp add: fetchAndStore_commit [OF fetch ne tx])
  have abort: "snd (fetchAndStoreHistoricalData E now symb w) = w'"
    if tx: "history_transaction E now symb hs w' = Inl e" for e
    by (simp add: fetchAndStore_abort [OF fetch ne tx])
  have views: "filter (\<lambda>h. h_symbol h = symb) (stockHistory v)
                 = filter (\<lambda>h. h_symbol h = symb) (stockHistory w)
               \<or> (history_transaction E now symb hs w' = Inr v \<and>
                  filter (\<lambda>h. h_symbol h = symb) (stockHistory v) = createMany_skipDuplicates hs [])"
    if v: "v \<in> set (history_views E now symb hs w')" for v
    using history_views_old_or_new [OF v] same(1) rows by auto
  have final: "last (history_views E now symb hs w') = snd (fetchAndStoreHistoricalData E now symb w)"
  proof (cases "history_transaction E now symb hs w'")
    case (Inl e)
    then show ?thesis using history_views_last [of E now symb hs w'] abort [OF Inl] by simp
  next
    case (Inr w'')
    then show ?thesis using history_views_last [of E now symb hs w'] commit [OF Inr] by simp
  qed
  have nonempty: "history_views E now symb hs w' \<noteq> []"
    using history_views_last [of E now symb hs w'] by simp
  show ?thesis
    using commit rows others sub dates whole abort same views final nonempty by blast
qed

lemma fetch_envTwelve:
  "fetchHistoryData envTwelve ''AAPL'' worldHistory =
     (Some [rowAt ''AAPL'' (8 * ONE_DAY_MS) 10, rowAt ''AAPL'' (9 * ONE_DAY_MS) 20],
      worldHistory\<lparr>calls := [HistoryCall TwelveData ''AAPL'']\<rparr>)"
  by (simp add: history_defs envTwelve_def worldHistory_def metaAAPL_def rowAt_def tdRow_def
      toUpperCase_def toUpperChar_def ONE_DAY_MS_def)

theorem refetch_replaces_history_witness:
  "filter (\<lambda>h. h_symbol h = ''AAPL'')
     (stockHistory (snd (fetchAndStoreHistoricalData envTwelve (10 * ONE_DAY_MS) ''AAPL'' worldHistory)))
     = [rowAt ''AAPL'' (8 * ONE_DAY_MS) 10, rowAt ''AAPL'' (9 * ONE_DAY_MS) 20]
   \<and> filter (\<lambda>h. h_symbol h \<noteq> ''AAPL'')
     (stockHistory (snd (fetchAndStoreHistoricalData envTwelve (10 * ONE_DAY_MS) ''AAPL'' worldHistory)))
     = [rowAt ''MSFT'' (9 * ONE_DAY_MS) 50]
   \<and> map (\<lambda>v. filter (\<lambda>h. h_symbol h = ''AAPL'') (stockHistory v))
       (history_views envTwelve (10 * ONE_DAY_MS) ''AAPL''
          [rowAt ''AAPL'' (8 * ONE_DAY_MS) 10, rowAt ''AAPL'' (9 * ONE_DAY_MS) 20]
          (worldHistory\<lparr>calls := [HistoryCall TwelveData ''AAPL'']\<rparr>))
     = [[rowAt ''AAPL'' (9 * ONE_DAY_MS) 103, rowAt ''AAPL'' (5 * ONE_DAY_MS) 101,
         rowAt ''AAPL'' (8 * ONE_DAY_MS) 102],
        [rowAt ''AAPL'' (9 * ONE_DAY_MS) 103, rowAt ''AAPL'' (5 * ONE_DAY_MS) 101,
         rowAt ''AAPL'' (8 * ONE_DAY_MS) 102],
        [rowAt ''AAPL'' (9 * ONE_DAY_MS) 103, rowAt ''AAPL'' (5 * ONE_DAY_MS) 101,
         rowAt ''AAPL'' (8 * ONE_DAY_MS) 102],
        [rowAt ''AAPL'' (9 * ONE_DAY_MS) 103, rowAt ''AAPL'' (5 * ONE_DAY_MS) 101,
         rowAt ''AAPL'' (8 * ONE_DAY_MS) 102],
        [rowAt ''AAPL'' (8 * ONE_DAY_MS) 10, rowAt ''AAPL'' (9 * ONE_DAY_MS) 20]]"
  using refetch_replaces_history [OF fetch_envTwelve, of "10 * ONE_DAY_MS"]
  by (simp add: history_views_cases history_defs envTwelve_def worldHistory_def metaAAPL_def
      rowAt_def tdRow_def toUpperCase_def toUpperChar_def ONE_DAY_MS_def)

text \<open>
  The property rests on the three operations being issued on \<^verbatim>\<open>tx\<close>. Were the
  delete issued on the global client, a reader could find the symbol without any
  row, which is neither the old set nor the new one.
\<close>

lemma delete_outside_transaction_is_visible:
  "list_ex (\<lambda>v. filter (\<lambda>h. h_symbol h = ''AAPL'') (stockHistory v) = [])
     (snd (transaction
        [issue Prisma (tx_deleteMany envTwelve ''AAPL''),
         issue Tx (tx_createMany envTwelve ''AAPL''
                     [rowAt ''AAPL'' (8 * ONE_DAY_MS) 10, rowAt ''AAPL'' (9 * ONE_DAY_MS) 20]),
         issue Tx (tx_metadataUpsert envTwelve (10 * ONE_DAY_MS) ''AAPL''
                     [rowAt ''AAPL'' (8 * ONE_DAY_MS) 10, rowAt ''AAPL'' (9 * ONE_DAY_MS) 20])]
        worldHistory))
   \<and> filter (\<lambda>h. h_symbol h = ''AAPL'') (stockHistory worldHistory) \<noteq> []"
  by (simp add: transaction_def issue_def tx_deleteMany_def tx_createMany_def
      tx_metadataUpsert_def envTwelve_def worldHistory_def rowAt_def)

text \<open>
  Two rows of one date in the batch: the refetch commits and returns both, and
  \<^verbatim>\<open>skipDuplicates\<close> stores only the first.
\<close>

lemma refetch_duplicate_dates_skipped:
  "fst (fetchAndStoreHistoricalData envTwelveDup (10 * ONE_DAY_MS) ''AAPL'' worldHistory)
     = Inr [fetchedPoint (rowAt ''AAPL'' (9 * ONE_DAY_MS) 10),
            fetchedPoint (rowAt ''AAPL'' (9 * ONE_DAY_MS) 20)]
   \<and> filter (\<lambda>h. h_symbol h = ''AAPL'')
        (stockHistory (snd (fetchAndStoreHistoricalData envTwelveDup (10 * ONE_DAY_MS) ''AAPL'' worldHistory)))
     = [rowAt ''AAPL'' (9 * ONE_DAY_MS) 10]
   \<and> rowAt ''AAPL'' (9 * ONE_DAY_MS) 20
        \<notin> set (stockHistory (snd (fetchAndStoreHistoricalData envTwelveDup (10 * ONE_DAY_MS) ''AAPL'' worldHistory)))"
  by code_simp

text \<open>
  The mappings of the three history payloads on sample rows: a missing or zero
  number falls back as \<^verbatim>\<open>||\<close> does, and a missing volume is 0.
\<close>

lemma history_mappings_sample:
  "fromTwelveData ''X'' \<lparr> td_datetime = 5, td_open = None, td_high = Some 3, td_low = Some 0,
       td_close = Some 2, td_volume = Some 7 \<rparr>
     = \<lparr> h_symbol = ''X'', h_date = 5, h_open = 0, h_high = 3, h_low = 0, h_close = 2,
         h_adjClose = 2, h_volume = 7 \<rparr>"
  "fromYahoo ''X'' \<lparr> y_date = 5, y_open = Some 1, y_high = Some 3, y_low = None,
       y_close = Some 2, y_adjClose = None, y_volume = None \<rparr>
     = \<lparr> h_symbol = ''X'', h_date = 5, h_open = 1, h_high = 3, h_low = 0, h_close = 2,
         h_adjClose = 2, h_volume = 0 \<rparr>"
  "fromYahoo ''X'' \<lparr> y_date = 5, y_open = Some 1, y_high = Some 3, y_low = Some 1,
       y_close = Some 2, y_adjClose = Some 4, y_volume = Some 9 \<rparr>
     = \<lparr> h_symbol = ''X'', h_date = 5, h_open = 1, h_high = 3, h_low = 1, h_close = 2,
         h_adjClose = 4, h_volume = 9 \<rparr>"
  "fromFMP ''X'' \<lparr> f_date = 5, f_open = 1, f_high = 3, f_low = 0, f_close = 2,
       f_adjClose = Some 0, f_volume = Some 9 \<rparr>
     = \<lparr> h_symbol = ''X'', h_date = 5, h_open = 1, h_high = 3, h_low = 0, h_close = 2,
         h_adjClose = 2, h_volume = 9 \<rparr>"
  by (simp_all add: fromTwelveData_def fromYahoo_def fromFMP_def orElse_def bigIntOrZero_def)

text \<open>What a committed refetch returns: the batch, each row with its symbol.\<close>

lemma refetch_returns_batch:
  "fst (fetchAndStoreHistoricalData envTwelve (10 * ONE_DAY_MS) ''AAPL'' worldHistory)
     = Inr [\<lparr> p_symbol = Some ''AAPL'', p_date = 8 * ONE_DAY_MS, p_open = 10, p_high = 10,
              p_low = 10, p_close = 10, p_adjClose = 10, p_volume = 0 \<rparr>,
            \<lparr> p_symbol = Some ''AAPL'', p_date = 9 * ONE_DAY_MS, p_open = 20, p_high = 20,
              p_low = 20, p_close = 20, p_adjClose = 20, p_volume = 0 \<rparr>]"
  by (simp add: history_defs envTwelve_def worldHistory_def metaAAPL_def rowAt_def tdRow_def
      ONE_DAY_MS_def)

text \<open>
  C3 (as amended). When a provider gave a batch that is not empty and the transaction
  raises, \<^verbatim>\<open>fetchAndStoreHistoricalData\<close> catches the exception: the tables are those
  before the call, and the result is that of \<^verbatim>\<open>getStoredHistoricalData(symbol)\<close>,
  the stored rows of the symbol in the default window of five years in ascending
  order of date. Only a failure of that read reaches the caller.
\<close>

theorem persistence_failure_falls_back:
  assumes fetch: "fetchHistoryData E symb w = (Some hs, w')" and ne: "hs \<noteq> []"
    and tx: "history_transaction E now symb hs w' = Inl e"
  shows "fetchAndStoreHistoricalData E now symb w
           = (getStoredHistoricalData E now symb (365 * 5) w', w')
       \<and> sameTables w w'
       \<and> (if failing E (HistoryFindMany symb)
          then fst (fetchAndStoreHistoricalData E now symb w) = Inl (DbError (HistoryFindMany symb))
          else fst (fetchAndStoreHistoricalData E now symb w)
                 = Inr (map storedPoint (sort_key h_date
                     (filter (\<lambda>h. h_symbol h = symb \<and> now - 365 * 5 * ONE_DAY_MS \<le> h_date h)
                        (stockHistory w)))))"
proof -
  have same: "sameTables w w'" by (rule fetchHistoryData_sameTables [OF fetch])
  then have h: "stockHistory w' = stockHistory w" by (simp add: sameTables_def)
  have r: "fetchAndStoreHistoricalData E now symb w
             = (getStoredHistoricalData E now symb (365 * 5) w', w')"
    by (rule fetchAndStore_abort [OF fetch ne tx])
  show ?thesis using same h
    by (simp add: r getStoredHistoricalData_def stockHistory_findMany_gte_def)
qed

lemma fetch_envTxFail:
  "fetchHistoryData envTxFail ''AAPL'' worldHistory =
     (Some [rowAt ''AAPL'' (8 * ONE_DAY_MS) 10, rowAt ''AAPL'' (9 * ONE_DAY_MS) 20],
      worldHistory\<lparr>calls := [HistoryCall TwelveData ''AAPL'']\<rparr>)"
  by (simp add: history_defs envTxFail_def worldHistory_def metaAAPL_def rowAt_def tdRow_def
      toUpperCase_def toUpperChar_def ONE_DAY_MS_def)

lemma tx_envTxFail:
  "history_transaction envTxFail (10 * ONE_DAY_MS) ''AAPL''
     [rowAt ''AAPL'' (8 * ONE_DAY_MS) 10, rowAt ''AAPL'' (9 * ONE_DAY_MS) 20]
     (worldHistory\<lparr>calls := [HistoryCall TwelveData ''AAPL'']\<rparr>)
     = Inl (DbError (HistoryCreateMany ''AAPL''))"
  by (simp add: history_defs envTxFail_def worldHistory_def metaAAPL_def rowAt_def tdRow_def
      toUpperCase_def toUpperChar_def ONE_DAY_MS_def)

theorem persistence_failure_falls_back_witness:
  "fetchAndStoreHistoricalData envTxFail (10 * ONE_DAY_MS) ''AAPL'' worldHistory
     = (Inr [storedPoint (rowAt ''AAPL'' (5 * ONE_DAY_MS) 101),
             storedPoint (rowAt ''AAPL'' (8 * ONE_DAY_MS) 102),
             storedPoint (rowAt ''AAPL'' (9 * ONE_DAY_MS) 103)],
        worldHistory\<lparr>calls := [HistoryCall TwelveData ''AAPL'']\<rparr>)"
  using persistence_failure_falls_back [OF fetch_envTxFail _ tx_envTxFail]
  by (simp add: history_defs envTxFail_def worldHistory_def metaAAPL_def rowAt_def tdRow_def
      toUpperCase_def toUpperChar_def ONE_DAY_MS_def)

text \<open>
  Twelve Data gives two rows, \<^verbatim>\<open>createMany\<close> raises inside the transaction, and
  the caller receives the three rows stored before, not an error.
\<close>

theorem persistence_failure_not_surfaced_counterexample:
  "fetchHistoryData envTxFail ''AAPL'' worldHistory =
     (Some [rowAt ''AAPL'' (8 * ONE_DAY_MS) 10, rowAt ''AAPL'' (9 * ONE_DAY_MS) 20],
      worldHistory\<lparr>calls := [HistoryCall TwelveData ''AAPL'']\<rparr>)
   \<and> history_transaction envTxFail (10 * ONE_DAY_MS) ''AAPL''
       [rowAt ''AAPL'' (8 * ONE_DAY_MS) 10, rowAt ''AAPL'' (9 * ONE_DAY_MS) 20]
       (worldHistory\<lparr>calls := [HistoryCall TwelveData ''AAPL'']\<rparr>)
     = Inl (DbError (HistoryCreateMany ''AAPL''))
   \<and> fst (fetchAndStoreHistoricalData envTxFail (10 * ONE_DAY_MS) ''AAPL'' worldHistory)
     = Inr [storedPoint (rowAt ''AAPL'' (5 * ONE_DAY_MS) 101),
            storedPoint (rowAt ''AAPL'' (8 * ONE_DAY_MS) 102),
            storedPoint (rowAt ''AAPL'' (9 * ONE_DAY_MS) 103)]"
  by (simp add: history_defs envTxFail_def worldHistory_def metaAAPL_def rowAt_def tdRow_def
      toUpperCase_def toUpperChar_def ONE_DAY_MS_def)

text \<open>
  C5. The sequence \<^verbatim>\<open>getHistoricalData\<close> returns is meant to ascend by date, and the
  Twelve Data branch reverses its newest-first payload. The FMP branch does not: when
  Twelve Data and Yahoo fail and FMP answers newest first, the refetch returns the
  points in descending order of date.
\<close>

theorem fmp_newest_first_returned_descending:
  "map_sum id (map p_date)
     (fst (getHistoricalData envFMP (10 * ONE_DAY_MS) ''aapl''
             \<lparr>opt_days = None, opt_forceRefresh = Some True\<rparr> worldHistory))
     = Inr [9 * ONE_DAY_MS, 8 * ONE_DAY_MS]
   \<and> \<not> sorted [9 * ONE_DAY_MS, 8 * ONE_DAY_MS]"
  by code_simp

text \<open>
  C6. The metadata upsert takes \<^verbatim>\<open>historyStartDate\<close> from the last element of the
  batch and \<^verbatim>\<open>historyEndDate\<close> from the first. The Twelve Data batch is oldest
  first after the reversal, so a committed refetch of the payload (day 9, day 8)
  stores the start date day 9, the maximum, and the end date day 8, the minimum;
  \<^verbatim>\<open>lastFetchedAt\<close> is the time of the call.
\<close>

theorem twelve_data_metadata_dates_swapped:
  "map_sum id (map p_date)
     (fst (fetchAndStoreHistoricalData envTwelve (10 * ONE_DAY_MS) ''AAPL'' worldHistory))
     = Inr [8 * ONE_DAY_MS, 9 * ONE_DAY_MS]
   \<and> map_option (\<lambda>m. (m_historyStartDate m, m_historyEndDate m, m_lastFetchedAt m))
       (stockMetadata (snd (fetchAndStoreHistoricalData envTwelve (10 * ONE_DAY_MS) ''AAPL'' worldHistory))
          ''AAPL'')
     = Some (Some (9 * ONE_DAY_MS), Some (8 * ONE_DAY_MS), Some (10 * ONE_DAY_MS))"
  by code_simp

subsection \<open>Snapshot service: the daily snapshot\<close>

lemma quoteTablesOnly_refl: "quoteTablesOnly w w"
  by (simp add: quoteTablesOnly_def)

lemma quoteTablesOnly_trans:
  "quoteTablesOnly w w1 \<Longrightarrow> quoteTablesOnly w1 w2 \<Longrightarrow> quoteTablesOnly w w2"
  by (simp add: quoteTablesOnly_def)

lemma trySources_tables:
  "trySources E now U ss w = (r, w') \<Longrightarrow> quoteTablesOnly w w'"
proof (induction ss arbitrary: w)
  case Nil
  then show ?case by (simp add: quoteTablesOnly_def)
next
  case (Cons s ss)
  let ?w1 = "w\<lparr>calls := calls w @ [QuoteCall s U]\<rparr>"
  have step: "quoteTablesOnly w ?w1" by (simp add: quoteTablesOnly_def)
  show ?case
  proof (cases "quoteAdapter E s U")
    case Throws
    with Cons.prems have "trySources E now U ss ?w1 = (r, w')" by simp
    from Cons.IH [OF this] step show ?thesis by (rule quoteTablesOnly_trans [rotated])
  next
    case NoData
    with Cons.prems have "trySources E now U ss ?w1 = (r, w')" by simp
    from Cons.IH [OF this] step show ?thesis by (rule quoteTablesOnly_trans [rotated])
  next
    case (Data res)
    show ?thesis
    proof (cases "validPrice res")
      case True
      with Data Cons.prems show ?thesis
        by (auto simp: quoteTablesOnly_def stockQuote_upsert_caught_def Let_def)
    next
      case False
      with Data Cons.prems have "trySources E now U ss ?w1 = (r, w')" by simp
      from Cons.IH [OF this] step show ?thesis by (rule quoteTablesOnly_trans [rotated])
    qed
  qed
qed

lemma getQuote_tables:
  "getQuote E now s w = (r, w') \<Longrightarrow> quoteTablesOnly w w'"
  by (auto simp: getQuote_def Let_def quoteTablesOnly_refl
      split: sum.splits if_splits prod.splits option.splits dest: trySources_tables)

lemma getQuotes_loop_tables:
  "getQuotes_loop E now ss results w = (r, w') \<Longrightarrow> quoteTablesOnly w w'"
proof (induction ss arbitrary: results w)
  case Nil
  then show ?case by (simp add: quoteTablesOnly_refl)
next
  case (Cons s ss)
  obtain r1 w1 where g: "getQuote E now s w = (r1, w1)" by (cases "getQuote E now s w")
  have t1: "quoteTablesOnly w w1" by (rule getQuote_tables [OF g])
  show ?case
  proof (cases r1)
    case (Inl e)
    with Cons.prems g have "w' = w1" by simp
    with t1 show ?thesis by simp
  next
    case (Inr q)
    show ?thesis
    proof (cases q)
      case None
      with Inr Cons.prems g have "getQuotes_loop E now ss results w1 = (r, w')" by simp
      from t1 Cons.IH [OF this] show ?thesis by (rule quoteTablesOnly_trans)
    next
      case (Some qd)
      with Inr Cons.prems g
      have "getQuotes_loop E now ss (results(toUpperCase s \<mapsto> qd)) w1 = (r, w')" by simp
      from t1 Cons.IH [OF this] show ?thesis by (rule quoteTablesOnly_trans)
    qed
  qed
qed

lemma getQuotes_loop_dom:
  "getQuotes_loop E now ss results w = (Inr quotes, w') \<Longrightarrow>
   dom quotes \<subseteq> dom results \<union> toUpperCase ` set ss"
proof (induction ss arbitrary: results w)
  case Nil
  then show ?case by simp
next
  case (Cons s ss)
  obtain r1 w1 where g: "getQuote E now s w = (r1, w1)" by (cases "getQuote E now s w")
  show ?case
  proof (cases r1)
    case (Inl e)
    with Cons.prems g show ?thesis by simp
  next
    case (Inr q)
    show ?thesis
    proof (cases q)
      case None
      with Inr Cons.prems g have "getQuotes_loop E now ss results w1 = (Inr quotes, w')" by simp
      from Cons.IH [OF this] show ?thesis by auto
    next
      case (Some qd)
      with Inr Cons.prems g
      have "getQuotes_loop E now ss (results(toUpperCase s \<mapsto> qd)) w1 = (Inr quotes, w')" by simp
      from Cons.IH [OF this] show ?thesis by auto
    qed
  qed
qed

lemma set_uniqueSymbols_aux:
  "set (fold (\<lambda>x acc. if x \<in> set acc then acc else acc @ [x]) xs ys) = set ys \<union> set xs"
  by (induction xs arbitrary: ys) auto

lemma set_uniqueSymbols: "set (uniqueSymbols xs) = set xs"
  by (simp add: uniqueSymbols_def set_uniqueSymbols_aux)

lemma distinct_uniqueSymbols_aux:
  "distinct ys \<Longrightarrow> distinct (fold (\<lambda>x acc. if x \<in> set acc then acc else acc @ [x]) xs ys)"
  by (induction xs arbitrary: ys) auto

lemma distinct_uniqueSymbols: "distinct (uniqueSymbols xs)"
  by (simp add: uniqueSymbols_def distinct_uniqueSymbols_aux)

lemma uniqueSymbols_first_occurrences:
  "uniqueSymbols [''AAPL'', ''MSFT'', ''AAPL'', ''IBM'', ''MSFT''] = [''AAPL'', ''MSFT'', ''IBM'']"
  by (simp add: uniqueSymbols_def)

lemma orElse_zero: "orElse x 0 = (case x of None \<Rightarrow> 0 | Some c \<Rightarrow> c)"
  by (simp add: orElse_def split: option.splits)

lemma addHolding_apply:
  "addHolding quotes h (tv, tc, dg) =
     (tv + shares h * quotedPrice quotes h, tc + shares h * avgCostBasis h,
      dg + shares h * quotedChange quotes h)"
  by (cases "quotes (symbol h)")
     (simp_all add: addHolding_def quotedPrice_def quotedChange_def orElse_zero)

lemma fold_addHolding:
  "fold (addHolding quotes) hs (tv, tc, dg) =
     (tv + (\<Sum>h\<leftarrow>hs. shares h * quotedPrice quotes h),
      tc + (\<Sum>h\<leftarrow>hs. shares h * avgCostBasis h),
      dg + (\<Sum>h\<leftarrow>hs. shares h * quotedChange quotes h))"
  by (induction hs arbitrary: tv tc dg) (simp_all add: addHolding_apply add.assoc)

lemma snapshotKey_iff: "snapshotKey userId d s \<longleftrightarrow> snapshotKeyOf s = (userId, d)"
  by (simp add: snapshotKey_def snapshotKeyOf_def)

lemma overwrite_unique:
  "distinct (map snapshotKeyOf rows) \<Longrightarrow> list_ex (snapshotKey userId d) rows \<Longrightarrow>
   snapshotKey userId d row \<Longrightarrow>
   filter (snapshotKey userId d) (map (\<lambda>s. if snapshotKey userId d s then row else s) rows) = [row]
   \<and> filter (\<lambda>s. \<not> snapshotKey userId d s) (map (\<lambda>s. if snapshotKey userId d s then row else s) rows)
       = filter (\<lambda>s. \<not> snapshotKey userId d s) rows
   \<and> map snapshotKeyOf (map (\<lambda>s. if snapshotKey userId d s then row else s) rows) = map snapshotKeyOf rows"
proof (induction rows)
  case Nil
  then show ?case by simp
next
  case (Cons a rows)
  show ?case
  proof (cases "snapshotKey userId d a")
    case True
    then have ka: "snapshotKeyOf a = (userId, d)" by (simp add: snapshotKey_iff)
    from Cons.prems(1) ka have "\<forall>s\<in>set rows. \<not> snapshotKey userId d s"
      by (force simp: snapshotKey_iff image_iff)
    then have "map (\<lambda>s. if snapshotKey userId d s then row else s) rows = rows"
      "filter (snapshotKey userId d) rows = []"
      "filter (\<lambda>s. \<not> snapshotKey userId d s) rows = rows"
      by (simp_all add: map_idI filter_empty_conv filter_id_conv)
    moreover have "snapshotKeyOf row = snapshotKeyOf a"
      using Cons.prems(3) ka by (simp add: snapshotKey_iff)
    ultimately show ?thesis using True Cons.prems(3) by simp
  next
    case False
    with Cons.prems have "list_ex (snapshotKey userId d) rows" and "distinct (map snapshotKeyOf rows)"
      by simp_all
    from Cons.IH [OF this(2) this(1) Cons.prems(3)] False show ?thesis by simp
  qed
qed

lemma upsert_eq:
  "\<not> failing E (SnapshotUpsert userId d) \<Longrightarrow>
   portfolioSnapshot_upsert E userId d tv tc dg w =
     Inr (snapshotRow userId d tv tc dg,
          w\<lparr>portfolioSnapshot :=
              upsertedRows userId d (snapshotRow userId d tv tc dg) (portfolioSnapshot w)\<rparr>)"
  by (simp add: portfolioSnapshot_upsert_def snapshotRow_def upsertedRows_def Let_def)

lemma upsertedRows_props:
  assumes dist: "distinct (map snapshotKeyOf rows)" and k: "snapshotKey userId d row"
  shows "filter (snapshotKey userId d) (upsertedRows userId d row rows) = [row]"
    and "filter (\<lambda>s. \<not> snapshotKey userId d s) (upsertedRows userId d row rows)
           = filter (\<lambda>s. \<not> snapshotKey userId d s) rows"
    and "distinct (map snapshotKeyOf (upsertedRows userId d row rows))"
proof -
  show "filter (snapshotKey userId d) (upsertedRows userId d row rows) = [row]"
  proof (cases "list_ex (snapshotKey userId d) rows")
    case True
    then show ?thesis using overwrite_unique [OF dist True k] by (simp add: upsertedRows_def)
  next
    case False
    then have "filter (snapshotKey userId d) rows = []"
      by (simp add: list_ex_iff filter_empty_conv)
    then show ?thesis using False k by (simp add: upsertedRows_def)
  qed
  show "filter (\<lambda>s. \<not> snapshotKey userId d s) (upsertedRows userId d row rows)
          = filter (\<lambda>s. \<not> snapshotKey userId d s) rows"
  proof (cases "list_ex (snapshotKey userId d) rows")
    case True
    then show ?thesis using overwrite_unique [OF dist True k] by (simp add: upsertedRows_def)
  next
    case False
    then show ?thesis using k by (simp add: upsertedRows_def)
  qed
  show "distinct (map snapshotKeyOf (upsertedRows userId d row rows))"
  proof (cases "list_ex (snapshotKey userId d) rows")
    case True
    from overwrite_unique [OF dist True k]
    have "map snapshotKeyOf (map (\<lambda>s. if snapshotKey userId d s then row else s) rows)
            = map snapshotKeyOf rows" by blast
    then show ?thesis using True dist by (simp only: upsertedRows_def if_True)
  next
    case False
    then have "\<forall>s\<in>set rows. snapshotKeyOf s \<noteq> (userId, d)"
      by (simp add: list_ex_iff snapshotKey_iff)
    moreover have "snapshotKeyOf row = (userId, d)" using k by (simp add: snapshotKey_iff)
    ultimately have "snapshotKeyOf row \<notin> snapshotKeyOf ` set rows" by force
    then show ?thesis using False dist by (simp add: upsertedRows_def)
  qed
qed

lemma snapshotKey_snapshotRow: "snapshotKey userId d (snapshotRow userId d tv tc dg)"
  by (simp add: snapshotKey_def snapshotRow_def)

lemma upsert_ok:
  assumes nf: "\<not> failing E (SnapshotUpsert userId d)"
    and dist: "distinct (map snapshotKeyOf (portfolioSnapshot w))"
  shows "\<exists>w2. portfolioSnapshot_upsert E userId d tv tc dg w = Inr (snapshotRow userId d tv tc dg, w2)
           \<and> filter (snapshotKey userId d) (portfolioSnapshot w2) = [snapshotRow userId d tv tc dg]
           \<and> filter (\<lambda>s. \<not> snapshotKey userId d s) (portfolioSnapshot w2)
               = filter (\<lambda>s. \<not> snapshotKey userId d s) (portfolioSnapshot w)
           \<and> distinct (map snapshotKeyOf (portfolioSnapshot w2))"
  using upsertedRows_props [OF dist snapshotKey_snapshotRow, of userId d tv tc dg]
  by (simp add: upsert_eq [OF nf])

text \<open>
  C2. For a user with holdings, \<^verbatim>\<open>recordDailySnapshot\<close> returns the row
  (userId, today at midnight) whose totalValue is the sum of shares times price, whose
  totalCost is the sum of shares times avgCostBasis and whose dayGain is the sum of
  shares times changeAmount, over the holdings; the price and the change are those of
  the entry of the \<^verbatim>\<open>getQuotes\<close> result under the holding's symbol, and
  avgCostBasis and 0 when there is none (a missing changeAmount counts as 0). The
  keys of that result are uppercased symbols of the holdings, so an uppercase symbol
  is looked up under the key its quote was stored under. After the call the table
  has exactly one row with the key (userId, today), this row; its other rows are as
  before and the keys stay distinct, so a second call on the same day meets the
  hypotheses again and overwrites the row. The hypotheses are those of the call
  reaching the upsert: the user has a holding (without one the function returns
  \<^verbatim>\<open>null\<close> at once), and the portfolio read, the quote lookups and the upsert do
  not raise.
\<close>

theorem recordDailySnapshot_totals:
  assumes pf: "\<not> failing E (PortfolioFindMany userId)"
    and ne: "userHoldings userId w \<noteq> []"
    and gq: "getQuotes E now (uniqueSymbols (map symbol (userHoldings userId w))) w = (Inr quotes, w')"
    and up: "\<not> failing E (SnapshotUpsert userId (startOfDay (tzOffset E) now))"
    and dist: "distinct (map snapshotKeyOf (portfolioSnapshot w))"
  shows "\<exists>row w''.
           row = snapshotRow userId (startOfDay (tzOffset E) now)
                   (\<Sum>h\<leftarrow>userHoldings userId w. shares h * quotedPrice quotes h)
                   (\<Sum>h\<leftarrow>userHoldings userId w. shares h * avgCostBasis h)
                   (\<Sum>h\<leftarrow>userHoldings userId w. shares h * quotedChange quotes h)
         \<and> recordDailySnapshot E now userId w = (Inr (Some row), w'')
         \<and> filter (snapshotKey userId (startOfDay (tzOffset E) now)) (portfolioSnapshot w'') = [row]
         \<and> filter (\<lambda>s. \<not> snapshotKey userId (startOfDay (tzOffset E) now) s) (portfolioSnapshot w'')
             = filter (\<lambda>s. \<not> snapshotKey userId (startOfDay (tzOffset E) now) s) (portfolioSnapshot w)
         \<and> distinct (map snapshotKeyOf (portfolioSnapshot w''))
         \<and> dom quotes \<subseteq> toUpperCase ` symbol ` set (userHoldings userId w)"
proof -
  let ?today = "startOfDay (tzOffset E) now"
  let ?hs = "userHoldings userId w"
  let ?tv = "\<Sum>h\<leftarrow>?hs. shares h * quotedPrice quotes h"
  let ?tc = "\<Sum>h\<leftarrow>?hs. shares h * avgCostBasis h"
  let ?dg = "\<Sum>h\<leftarrow>?hs. shares h * quotedChange quotes h"
  have tabs: "quoteTablesOnly w w'"
    using gq by (auto simp: getQuotes_def dest: getQuotes_loop_tables)
  then have snaps: "portfolioSnapshot w' = portfolioSnapshot w" by (simp add: quoteTablesOnly_def)
  from upsert_ok [OF up, of w' ?tv ?tc ?dg] dist snaps obtain w2 where
    u: "portfolioSnapshot_upsert E userId ?today ?tv ?tc ?dg w' = Inr (snapshotRow userId ?today ?tv ?tc ?dg, w2)"
    and f1: "filter (snapshotKey userId ?today) (portfolioSnapshot w2) = [snapshotRow userId ?today ?tv ?tc ?dg]"
    and f2: "filter (\<lambda>s. \<not> snapshotKey userId ?today s) (portfolioSnapshot w2)
               = filter (\<lambda>s. \<not> snapshotKey userId ?today s) (portfolioSnapshot w)"
    and d2: "distinct (map snapshotKeyOf (portfolioSnapshot w2))"
    by auto
  have pfs: "filter (\<lambda>p. pf_userId p = userId) (portfolio w) \<noteq> []"
    using ne by (auto simp: userHoldings_def filter_empty_conv)
  have fold0: "fold (addHolding quotes) ?hs (0, 0, 0) = (?tv, ?tc, ?dg)"
    by (simp add: fold_addHolding)
  have body: "recordDailySnapshot_body E now userId w
                = (Inr (Some (snapshotRow userId ?today ?tv ?tc ?dg)), w2)"
    using pf pfs ne gq u fold0
    by (simp add: recordDailySnapshot_body_def portfolio_findMany_def Let_def
        userHoldings_def [symmetric])
  have res: "recordDailySnapshot E now userId w
               = (Inr (Some (snapshotRow userId ?today ?tv ?tc ?dg)), w2)"
    by (simp add: recordDailySnapshot_def body)
  have dm: "dom quotes \<subseteq> toUpperCase ` symbol ` set ?hs"
    using getQuotes_loop_dom [of E now "uniqueSymbols (map symbol ?hs)" Map.empty w quotes w'] gq
    by (simp add: getQuotes_def set_uniqueSymbols)
  from res f1 f2 d2 dm show ?thesis by blast
qed

lemmas quote_defs = getQuotes_def getQuote_def stockQuote_findUnique_def sources_def
  validPrice_def quoteData_def bigIntOrNull_def stockQuote_upsert_caught_def freshQuote_def

lemmas snapshot_defs = recordDailySnapshot_def recordDailySnapshot_body_def
  portfolio_findMany_def uniqueSymbols_def portfolioSnapshot_upsert_def snapshotKey_def
  addHolding_def orElse_def startOfDay_def minusDays_def userHoldings_def snapshotRow_def
  quotedPrice_def quotedChange_def snapshotKeyOf_def

lemmas user_defs = envQuote_def resAAPL_def worldUser_def rowAt_def toUpperCase_def
  toUpperChar_def ONE_DAY_MS_def

lemma getQuotes_envQuote:
  "getQuotes envQuote (10 * ONE_DAY_MS + 5000) (uniqueSymbols (map symbol (userHoldings ''u1'' worldUser))) worldUser
     = (Inr [''AAPL'' \<mapsto> quoteFetched], worldUser1)"
  by (simp add: quote_defs snapshot_defs user_defs quoteFetched_def worldUser1_def Let_def)

lemma getQuotes_envQuote_again:
  "getQuotes envQuote (10 * ONE_DAY_MS + 9000)
     (uniqueSymbols (map symbol (userHoldings ''u1''
        (worldUser1\<lparr>portfolioSnapshot := [snapshotRow ''u1'' (10 * ONE_DAY_MS) 1600 1500 50]\<rparr>))))
     (worldUser1\<lparr>portfolioSnapshot := [snapshotRow ''u1'' (10 * ONE_DAY_MS) 1600 1500 50]\<rparr>)
     = (Inr [''AAPL'' \<mapsto> quoteFetched\<lparr>q_updatedAt := Some (10 * ONE_DAY_MS + 5000)\<rparr>],
        worldUser1\<lparr>portfolioSnapshot := [snapshotRow ''u1'' (10 * ONE_DAY_MS) 1600 1500 50]\<rparr>)"
  by (simp add: quote_defs snapshot_defs user_defs quoteFetched_def worldUser1_def Let_def)

theorem recordDailySnapshot_totals_witness:
  "recordDailySnapshot envQuote (10 * ONE_DAY_MS + 5000) ''u1'' worldUser
     = (Inr (Some (snapshotRow ''u1'' (10 * ONE_DAY_MS) 1600 1500 50)),
        worldUser1\<lparr>portfolioSnapshot := [snapshotRow ''u1'' (10 * ONE_DAY_MS) 1600 1500 50]\<rparr>)
   \<and> recordDailySnapshot envQuote (10 * ONE_DAY_MS + 9000) ''u1''
        (worldUser1\<lparr>portfolioSnapshot := [snapshotRow ''u1'' (10 * ONE_DAY_MS) 1600 1500 50]\<rparr>)
     = (Inr (Some (snapshotRow ''u1'' (10 * ONE_DAY_MS) 1600 1500 50)),
        worldUser1\<lparr>portfolioSnapshot := [snapshotRow ''u1'' (10 * ONE_DAY_MS) 1600 1500 50]\<rparr>)"
  using recordDailySnapshot_totals [OF _ _ getQuotes_envQuote]
    recordDailySnapshot_totals [OF _ _ getQuotes_envQuote_again]
  by (simp add: quote_defs snapshot_defs user_defs quoteFetched_def worldUser1_def Let_def)

text \<open>
  The guard before the computation: for a user whose portfolio has no holdings
  nothing is upserted and \<^verbatim>\<open>null\<close> is returned.
\<close>

lemma recordDailySnapshot_no_holdings:
  "list_all (\<lambda>h. toUpperCase (symbol h) = symbol h) (userHoldings ''u2'' worldUser)
   \<and> recordDailySnapshot envQuote (10 * ONE_DAY_MS + 5000) ''u2'' worldUser = (Inr None, worldUser)
   \<and> portfolioSnapshot worldUser = []"
  by (simp add: quote_defs snapshot_defs user_defs Let_def)

subsection \<open>Snapshot service: failures and the backfill\<close>

lemma loadHistory_isl:
  "isl (loadHistory E days ss acc w) \<longleftrightarrow> list_ex (\<lambda>s. failing E (HistoryFindMany s)) ss"
  by (induction ss arbitrary: acc) (simp_all add: stockHistory_findMany_take_def)

lemma recordDailySnapshot_Inr:
  "\<exists>r w'. recordDailySnapshot E now userId w = (Inr r, w')"
  by (simp add: recordDailySnapshot_def split: prod.splits sum.splits)

lemma generateHistoricalSnapshots_Inr:
  "\<exists>r w'. generateHistoricalSnapshots E now userId days w = (Inr r, w')"
  by (simp add: generateHistoricalSnapshots_def split: prod.splits sum.splits)

lemma recordDailySnapshot_caught:
  "isl (fst (recordDailySnapshot_body E now userId w)) \<Longrightarrow>
   fst (recordDailySnapshot E now userId w) = Inr None"
  by (auto simp: recordDailySnapshot_def split: prod.splits sum.splits)

lemma generateHistoricalSnapshots_caught:
  "isl (fst (generateHistoricalSnapshots_body E now userId days w)) \<Longrightarrow>
   fst (generateHistoricalSnapshots E now userId days w) = Inr []"
  by (auto simp: generateHistoricalSnapshots_def split: prod.splits sum.splits)

lemma userHoldings_empty_portfolios:
  "filter (\<lambda>p. pf_userId p = userId) (portfolio w) = [] \<Longrightarrow> userHoldings userId w = []"
  by (simp add: userHoldings_def)

lemma recordDailySnapshot_body_raises:
  "isl (fst (recordDailySnapshot_body E now userId w)) \<longleftrightarrow>
     failing E (PortfolioFindMany userId) \<or>
     (userHoldings userId w \<noteq> [] \<and>
        (isl (fst (getQuotes E now (uniqueSymbols (map symbol (userHoldings userId w))) w)) \<or>
         failing E (SnapshotUpsert userId (startOfDay (tzOffset E) now))))"
proof (cases "failing E (PortfolioFindMany userId)")
  case True
  then show ?thesis by (simp add: recordDailySnapshot_body_def portfolio_findMany_def)
next
  case pf: False
  show ?thesis
  proof (cases "userHoldings userId w = []")
    case True
    then show ?thesis using pf
      by (simp add: recordDailySnapshot_body_def portfolio_findMany_def Let_def
          userHoldings_def [symmetric])
  next
    case False
    then have ps: "filter (\<lambda>p. pf_userId p = userId) (portfolio w) \<noteq> []"
      using userHoldings_empty_portfolios by blast
    obtain r w' where g: "getQuotes E now (uniqueSymbols (map symbol (userHoldings userId w))) w = (r, w')"
      by (cases "getQuotes E now (uniqueSymbols (map symbol (userHoldings userId w))) w")
    show ?thesis using pf False ps g
      by (cases r)
         (simp_all add: recordDailySnapshot_body_def portfolio_findMany_def Let_def
            userHoldings_def [symmetric] portfolioSnapshot_upsert_def split: prod.splits)
  qed
qed

lemma generateHistoricalSnapshots_body_raises:
  "isl (fst (generateHistoricalSnapshots_body E now userId days w)) \<longleftrightarrow>
     failing E (PortfolioFindMany userId) \<or>
     list_ex (\<lambda>h. failing E (HistoryFindMany (symbol h))) (userHoldings userId w)"
proof (cases "failing E (PortfolioFindMany userId)")
  case True
  then show ?thesis by (simp add: generateHistoricalSnapshots_body_def portfolio_findMany_def)
next
  case pf: False
  let ?hs = "userHoldings userId w"
  have ex: "list_ex (\<lambda>s. failing E (HistoryFindMany s)) (uniqueSymbols (map symbol ?hs))
              = list_ex (\<lambda>h. failing E (HistoryFindMany (symbol h))) ?hs"
    by (auto simp: list_ex_iff set_uniqueSymbols)
  show ?thesis
  proof (cases "?hs = []")
    case True
    then show ?thesis using pf
      by (simp add: generateHistoricalSnapshots_body_def portfolio_findMany_def Let_def
          userHoldings_def [symmetric])
  next
    case False
    show ?thesis
    proof (cases "loadHistory E days (uniqueSymbols (map symbol ?hs)) Map.empty w")
      case (Inl e)
      then have "list_ex (\<lambda>s. failing E (HistoryFindMany s)) (uniqueSymbols (map symbol ?hs))"
        using loadHistory_isl [of E days "uniqueSymbols (map symbol ?hs)" Map.empty w] by simp
      then show ?thesis using pf False Inl ex
        by (simp add: generateHistoricalSnapshots_body_def portfolio_findMany_def Let_def
            userHoldings_def [symmetric])
    next
      case (Inr hdata)
      then have "\<not> list_ex (\<lambda>s. failing E (HistoryFindMany s)) (uniqueSymbols (map symbol ?hs))"
        using loadHistory_isl [of E days "uniqueSymbols (map symbol ?hs)" Map.empty w] by simp
      then show ?thesis using pf False Inr ex
        by (simp add: generateHistoricalSnapshots_body_def portfolio_findMany_def Let_def
            userHoldings_def [symmetric] split: prod.splits)
    qed
  qed
qed

lemma dayStep_upsert_fails:
  "failing E (SnapshotUpsert userId (minusDays today i)) \<Longrightarrow>
   dayStep E userId hs hdata today i st = st"
  by (simp add: dayStep_def portfolioSnapshot_upsert_def Let_def split: prod.splits)

lemma no_holdings_results:
  assumes "userHoldings userId w = []"
  shows "fst (recordDailySnapshot E now userId w) = Inr None"
    and "fst (generateHistoricalSnapshots E now userId days w) = Inr []"
  using assms
  by (simp_all add: recordDailySnapshot_def recordDailySnapshot_body_def
      generateHistoricalSnapshots_def generateHistoricalSnapshots_body_def
      portfolio_findMany_def Let_def userHoldings_def [symmetric])

text \<open>
  C10 (as amended). Neither function lets an exception out. An exception inside
  \<^verbatim>\<open>recordDailySnapshot\<close> (the portfolio read, the quote lookups, the upsert) gives
  \<^verbatim>\<open>null\<close>, and an exception inside \<^verbatim>\<open>generateHistoricalSnapshots\<close> outside the
  per-day upsert (the portfolio read, a history read) gives the empty list: the values
  returned for a user without holdings. A per-day upsert that raises has its own
  \<^verbatim>\<open>catch\<close>: the day is skipped, the loop goes on, and the snapshots of the other
  days are returned.
\<close>

theorem snapshot_functions_catch_failures:
  "(\<exists>r w'. recordDailySnapshot E now userId w = (Inr r, w'))
   \<and> (\<exists>r w'. generateHistoricalSnapshots E now userId days w = (Inr r, w'))
   \<and> (isl (fst (recordDailySnapshot_body E now userId w)) \<longleftrightarrow>
        failing E (PortfolioFindMany userId) \<or>
        (userHoldings userId w \<noteq> [] \<and>
           (isl (fst (getQuotes E now (uniqueSymbols (map symbol (userHoldings userId w))) w)) \<or>
            failing E (SnapshotUpsert userId (startOfDay (tzOffset E) now)))))
   \<and> (isl (fst (recordDailySnapshot_body E now userId w)) \<longrightarrow>
        fst (recordDailySnapshot E now userId w) = Inr None)
   \<and> (isl (fst (generateHistoricalSnapshots_body E now userId days w)) \<longleftrightarrow>
        failing E (PortfolioFindMany userId) \<or>
        list_ex (\<lambda>h. failing E (HistoryFindMany (symbol h))) (userHoldings userId w))
   \<and> (isl (fst (generateHistoricalSnapshots_body E now userId days w)) \<longrightarrow>
        fst (generateHistoricalSnapshots E now userId days w) = Inr [])
   \<and> (userHoldings userId w = [] \<longrightarrow>
        fst (recordDailySnapshot E now userId w) = Inr None \<and>
        fst (generateHistoricalSnapshots E now userId days w) = Inr [])
   \<and> (failing E (SnapshotUpsert userId (minusDays today i)) \<longrightarrow>
        dayStep E userId hs hdata today i st = st)"
  using recordDailySnapshot_Inr [of E now userId w]
    generateHistoricalSnapshots_Inr [of E now userId days w]
    recordDailySnapshot_body_raises [of E now userId w]
    recordDailySnapshot_caught [of E now userId w]
    generateHistoricalSnapshots_body_raises [of E now userId days w]
    generateHistoricalSnapshots_caught [of E now userId days w]
    no_holdings_results(1) [of userId w E now]
    no_holdings_results(2) [of userId w E now days]
    dayStep_upsert_fails [of E userId today i hs hdata st]
  by blast

theorem snapshot_functions_catch_failures_witness:
  "fst (recordDailySnapshot envDbDown (10 * ONE_DAY_MS + 5000) ''u1'' worldUser) = Inr None
   \<and> fst (generateHistoricalSnapshots envDbDown (10 * ONE_DAY_MS + 5000) ''u1'' 3 worldUser) = Inr []
   \<and> fst (recordDailySnapshot envQuote (10 * ONE_DAY_MS + 5000) ''u2'' worldUser) = Inr None
   \<and> fst (generateHistoricalSnapshots envQuote (10 * ONE_DAY_MS + 5000) ''u2'' 3 worldUser) = Inr []"
  using snapshot_functions_catch_failures [of envDbDown "10 * ONE_DAY_MS + 5000" "''u1''" worldUser 3]
    snapshot_functions_catch_failures [of envQuote "10 * ONE_DAY_MS + 5000" "''u2''" worldUser 3]
  by (simp add: envDbDown_def envQuote_def worldUser_def userHoldings_def)

text \<open>
  The upsert of day 9 raises: that day is skipped and the snapshots of day 8 and of
  today (day 10) are returned, so the list is not empty.
\<close>

theorem backfill_upsert_failure_counterexample:
  "failing envUpsertFail (SnapshotUpsert ''u1'' (9 * ONE_DAY_MS))
   \<and> fst (generateHistoricalSnapshots envUpsertFail (10 * ONE_DAY_MS + 5000) ''u1'' 3 worldUser)
     = Inr [snapshotRow ''u1'' (8 * ONE_DAY_MS) 1020 1500 0,
            snapshotRow ''u1'' (10 * ONE_DAY_MS) 1500 1500 0]"
  by code_simp

text \<open>
  C1. The comments of \<^verbatim>\<open>generateHistoricalSnapshots\<close> say that it generates
  snapshots for each day we have data. The history of a symbol is loaded with
  \<^verbatim>\<open>orderBy: { date: 'asc' }, take: days\<close>, the oldest \<^verbatim>\<open>days\<close> rows. With rows
  stored for days 5, 8 and 9 and \<^verbatim>\<open>days = 1\<close>, only the row of day 5 is loaded: day 9
  is in the range and has a stored point, and no snapshot is upserted for it; today
  (day 10) gets the flat snapshot at cost basis. With \<^verbatim>\<open>days = 3\<close> all three rows
  are loaded and days 8 and 9 get their snapshots.
\<close>

theorem backfill_misses_day_with_stored_point:
  "stockHistory_findMany_take envQuote ''AAPL'' 1 worldUser = Inr [rowAt ''AAPL'' (5 * ONE_DAY_MS) 101]
   \<and> list_ex (\<lambda>h. h_symbol h = ''AAPL'' \<and> startOfDay 0 (h_date h) = 9 * ONE_DAY_MS)
        (stockHistory worldUser)
   \<and> minusDays (startOfDay 0 (10 * ONE_DAY_MS + 5000)) 1 = 9 * ONE_DAY_MS
   \<and> fst (generateHistoricalSnapshots envQuote (10 * ONE_DAY_MS + 5000) ''u1'' 1 worldUser)
     = Inr [snapshotRow ''u1'' (10 * ONE_DAY_MS) 1500 1500 0]
   \<and> fst (generateHistoricalSnapshots envQuote (10 * ONE_DAY_MS + 5000) ''u1'' 3 worldUser)
     = Inr [snapshotRow ''u1'' (8 * ONE_DAY_MS) 1020 1500 0,
            snapshotRow ''u1'' (9 * ONE_DAY_MS) 1030 1500 10,
            snapshotRow ''u1'' (10 * ONE_DAY_MS) 1500 1500 0]"
  by code_simp

text \<open>
  The rule of one day of the backfill, on the rows that were loaded: a snapshot is
  pushed when a holding has a loaded row of that day or the day is today, and the
  upsert does not raise; a holding without a loaded row of the day adds
  \<open>shares * avgCostBasis\<close> to the value and to the baseline.
\<close>

lemma findDay_None_iff:
  "findDay off d rows = None \<longleftrightarrow> \<not> list_ex (\<lambda>r. startOfDay off (h_date r) = d) rows"
  by (auto simp: findDay_def find_None_iff list_ex_iff)

lemma addHoldingAt_apply:
  "addHoldingAt off hdata d h (tv, tc, pv, b) =
     (tv + valueAt off hdata d h, tc + shares h * avgCostBasis h,
      pv + baselineAt off hdata d h, b \<or> hasPointAt off hdata d h)"
proof (cases "findDay off d (loadedHistory hdata h)")
  case None
  then show ?thesis
    using findDay_None_iff [of off d "loadedHistory hdata h"]
    by (simp add: addHoldingAt_def valueAt_def baselineAt_def hasPointAt_def
        loadedHistory_def Let_def)
next
  case (Some r)
  then have "hasPointAt off hdata d h"
    using findDay_None_iff [of off d "loadedHistory hdata h"] by (simp add: hasPointAt_def)
  then show ?thesis using Some
    by (simp add: addHoldingAt_def valueAt_def baselineAt_def loadedHistory_def Let_def
        split: option.splits)
qed

lemma fold_addHoldingAt:
  "fold (addHoldingAt off hdata d) hs (tv, tc, pv, b) =
     (tv + (\<Sum>h\<leftarrow>hs. valueAt off hdata d h),
      tc + (\<Sum>h\<leftarrow>hs. shares h * avgCostBasis h),
      pv + (\<Sum>h\<leftarrow>hs. baselineAt off hdata d h),
      b \<or> list_ex (hasPointAt off hdata d) hs)"
  by (induction hs arbitrary: tv tc pv b) (simp_all add: addHoldingAt_apply add.assoc)

lemma dayStep_rule:
  "dayStep E userId hs hdata today i (snaps, w) =
     (if dayQualifies E userId hs hdata today i
      then (snaps @ [snapshotRow userId (minusDays today i)
                       (\<Sum>h\<leftarrow>hs. valueAt (tzOffset E) hdata (minusDays today i) h)
                       (\<Sum>h\<leftarrow>hs. shares h * avgCostBasis h)
                       ((\<Sum>h\<leftarrow>hs. valueAt (tzOffset E) hdata (minusDays today i) h)
                          - (\<Sum>h\<leftarrow>hs. baselineAt (tzOffset E) hdata (minusDays today i) h))],
            w\<lparr>portfolioSnapshot :=
                upsertedRows userId (minusDays today i)
                  (snapshotRow userId (minusDays today i)
                       (\<Sum>h\<leftarrow>hs. valueAt (tzOffset E) hdata (minusDays today i) h)
                       (\<Sum>h\<leftarrow>hs. shares h * avgCostBasis h)
                       ((\<Sum>h\<leftarrow>hs. valueAt (tzOffset E) hdata (minusDays today i) h)
                          - (\<Sum>h\<leftarrow>hs. baselineAt (tzOffset E) hdata (minusDays today i) h)))
                  (portfolioSnapshot w)\<rparr>)
      else (snaps, w))"
proof (cases "failing E (SnapshotUpsert userId (minusDays today i))")
  case True
  then show ?thesis by (simp add: dayStep_upsert_fails dayQualifies_def)
next
  case False
  then show ?thesis
    by (simp add: dayStep_def Let_def fold_addHoldingAt upsert_eq dayQualifies_def)
qed

lemma dayLoop_dates:
  "map s_date (fst (dayLoop E userId hs hdata today n (snaps, w))) =
     map s_date snaps @
     map (minusDays today) (filter (dayQualifies E userId hs hdata today) (rev [0..<Suc n]))"
proof (induction n arbitrary: snaps w)
  case 0
  show ?case by (simp add: dayStep_rule snapshotRow_def)
next
  case (Suc n)
  show ?case
  proof (cases "dayQualifies E userId hs hdata today (Suc n)")
    case True
    then show ?thesis
      by (simp only: dayLoop.simps dayStep_rule if_True Suc.IH)
         (simp add: snapshotRow_def)
  next
    case False
    then show ?thesis
      by (simp only: dayLoop.simps dayStep_rule if_False Suc.IH) simp
  qed
qed

lemma loadHistory_result:
  "\<not> list_ex (\<lambda>s. failing E (HistoryFindMany s)) ss \<Longrightarrow>
   loadHistory E days ss acc w =
     Inr (\<lambda>s. if s \<in> set ss
               then Some (take days (sort_key h_date
                            (filter (\<lambda>h. h_symbol h = s) (stockHistory w))))
               else acc s)"
proof (induction ss arbitrary: acc)
  case Nil
  then show ?case by simp
next
  case (Cons s ss)
  from Cons.prems have nf: "\<not> failing E (HistoryFindMany s)"
    and rest: "\<not> list_ex (\<lambda>s. failing E (HistoryFindMany s)) ss" by simp_all
  show ?case
    using nf by (auto simp: stockHistory_findMany_take_def Cons.IH [OF rest] fun_eq_iff)
qed

lemma hasPointAt_loaded:
  assumes "hdata (symbol h) = Some (take days (sort_key h_date
               (filter (\<lambda>r. h_symbol r = symbol h) (stockHistory w))))"
    and "length (filter (\<lambda>r. h_symbol r = symbol h) (stockHistory w)) \<le> days"
  shows "hasPointAt off hdata d h \<longleftrightarrow>
           list_ex (\<lambda>r. h_symbol r = symbol h \<and> startOfDay off (h_date r) = d) (stockHistory w)"
proof -
  have "take days (sort_key h_date (filter (\<lambda>r. h_symbol r = symbol h) (stockHistory w)))
          = sort_key h_date (filter (\<lambda>r. h_symbol r = symbol h) (stockHistory w))"
    using assms(2) by simp
  then show ?thesis using assms(1)
    by (auto simp: hasPointAt_def loadedHistory_def list_ex_iff)
qed

text \<open>
  When no symbol of the user's holdings has more than \<^verbatim>\<open>days\<close> stored rows, all of
  them are loaded, and the days that get a snapshot are, oldest first, the days of the
  range with a stored row of some holding's symbol, and today.
\<close>

lemma backfill_day_rule:
  assumes pf: "\<not> failing E (PortfolioFindMany userId)"
    and hf: "\<not> list_ex (\<lambda>h. failing E (HistoryFindMany (symbol h))) (userHoldings userId w)"
    and ne: "userHoldings userId w \<noteq> []"
    and fits: "list_all (\<lambda>h. length (filter (\<lambda>r. h_symbol r = symbol h) (stockHistory w)) \<le> days)
                 (userHoldings userId w)"
  shows "map_sum id (map s_date) (fst (generateHistoricalSnapshots E now userId days w)) =
           Inr (map (minusDays (startOfDay (tzOffset E) now))
                  (filter (\<lambda>i. (storedPointOn (tzOffset E) w (userHoldings userId w)
                                    (minusDays (startOfDay (tzOffset E) now) i) \<or> i = 0)
                               \<and> \<not> failing E (SnapshotUpsert userId
                                                 (minusDays (startOfDay (tzOffset E) now) i)))
                     (rev [0..<Suc days])))"
proof -
  let ?hs = "userHoldings userId w"
  let ?today = "startOfDay (tzOffset E) now"
  let ?ss = "uniqueSymbols (map symbol ?hs)"
  let ?hdata = "\<lambda>s. if s \<in> set ?ss
                      then Some (take days (sort_key h_date
                                   (filter (\<lambda>h. h_symbol h = s) (stockHistory w))))
                      else None"
  have nf: "\<not> list_ex (\<lambda>s. failing E (HistoryFindMany s)) ?ss"
    using hf by (auto simp: list_ex_iff set_uniqueSymbols)
  have load: "loadHistory E days ?ss Map.empty w = Inr ?hdata"
    by (rule loadHistory_result [OF nf])
  have pt: "hasPointAt (tzOffset E) ?hdata d h \<longleftrightarrow>
              list_ex (\<lambda>r. h_symbol r = symbol h \<and> startOfDay (tzOffset E) (h_date r) = d)
                (stockHistory w)"
    if "h \<in> set ?hs" for h d
  proof (rule hasPointAt_loaded)
    show "?hdata (symbol h) = Some (take days (sort_key h_date
               (filter (\<lambda>r. h_symbol r = symbol h) (stockHistory w))))"
      using that by (simp add: set_uniqueSymbols)
    show "length (filter (\<lambda>r. h_symbol r = symbol h) (stockHistory w)) \<le> days"
      using fits that by (simp add: list_all_iff)
  qed
  have q: "dayQualifies E userId ?hs ?hdata ?today i \<longleftrightarrow>
             (storedPointOn (tzOffset E) w ?hs (minusDays ?today i) \<or> i = 0)
             \<and> \<not> failing E (SnapshotUpsert userId (minusDays ?today i))" for i
    using pt by (auto simp: dayQualifies_def storedPointOn_def list_ex_iff)
  obtain snaps w' where loop: "dayLoop E userId ?hs ?hdata ?today days ([], w) = (snaps, w')"
    by (cases "dayLoop E userId ?hs ?hdata ?today days ([], w)")
  have dates: "map s_date snaps =
                 map (minusDays ?today) (filter (dayQualifies E userId ?hs ?hdata ?today) (rev [0..<Suc days]))"
    using dayLoop_dates [of E userId ?hs ?hdata ?today days "[]" w] loop by simp
  have body: "generateHistoricalSnapshots_body E now userId days w = (Inr snaps, w')"
    using pf ne load loop
    by (simp add: generateHistoricalSnapshots_body_def portfolio_findMany_def Let_def
        userHoldings_def [symmetric])
  have res: "fst (generateHistoricalSnapshots E now userId days w) = Inr snaps"
    by (simp add: generateHistoricalSnapshots_def body)
  have feq: "filter (dayQualifies E userId ?hs ?hdata ?today) (rev [0..<Suc days]) =
               filter (\<lambda>i. (storedPointOn (tzOffset E) w ?hs (minusDays ?today i) \<or> i = 0)
                            \<and> \<not> failing E (SnapshotUpsert userId (minusDays ?today i)))
                 (rev [0..<Suc days])"
    by (rule filter_cong [OF refl]) (rule q)
  show ?thesis by (simp only: res map_sum.simps dates feq)
qed

end
